theory Spec2Isabelle
  imports Complex_Main "HOL-Library.Word" "HOL-Library.Log_Nat"
begin

unbundle bit_operations_syntax

section \<open>LiPow firmware: battery monitor and BQ25703A regulator control\<close>

text \<open>
  A shallow embedding of \<^verbatim>\<open>Src/battery.c\<close> and \<^verbatim>\<open>Src/bq25703a_regulator.c\<close>.
  The C globals (\<^verbatim>\<open>battery_state\<close>, \<^verbatim>\<open>cell_connected_bitmask\<close>, \<^verbatim>\<open>regulator\<close>,
  the function-local statics) are passed explicitly and returned updated. The headers
  of the firmware are not part of the sources at hand, so every macro they define is a
  field of a configuration record; the functions are the source's, statement by
  statement.
\<close>

type_synonym u8 = "8 word"
type_synonym u16 = "16 word"
type_synonym u32 = "32 word"

subsection \<open>Fault registry\<close>

datatype fault =
    REGULATOR_COMMUNICATION_ERROR
  | VOLTAGE_INPUT_ERROR
  | CELL_CONNECTION_ERROR
  | CELL_VOLTAGE_ERROR
  | MCU_OVER_TEMP

text \<open>
  Modelled from the spec: \<^verbatim>\<open>error.c\<close> (\<^verbatim>\<open>Set_Error_State\<close>, \<^verbatim>\<open>Clear_Error_State\<close>,
  \<^verbatim>\<open>Get_Error_State\<close>) is not among the sources. The spec describes a bitset over the
  fault enumeration with set, clear, has and any; the registry is the set of active
  faults, \<^verbatim>\<open>Get_Error_State() == 0\<close> is emptiness and
  \<^verbatim>\<open>(Get_Error_State() & F) == F\<close> is membership.
\<close>

type_synonym error_state = "fault set"

definition Set_Error_State :: "fault \<Rightarrow> error_state \<Rightarrow> error_state" where
  "Set_Error_State f es = insert f es"

definition Clear_Error_State :: "fault \<Rightarrow> error_state \<Rightarrow> error_state" where
  "Clear_Error_State f es = es - {f}"

definition no_errors :: "error_state \<Rightarrow> bool" where
  "no_errors es = (es = {})"

definition has_error :: "fault \<Rightarrow> error_state \<Rightarrow> bool" where
  "has_error f es = (f \<in> es)"

subsection \<open>Battery state, readings and outputs\<close>

text \<open>\<^verbatim>\<open>CONNECTED\<close> and \<^verbatim>\<open>NOT_CONNECTED\<close> come from a header; only that they differ matters.\<close>

definition CONNECTED :: u8 where
  "CONNECTED = 1"

definition NOT_CONNECTED :: u8 where
  "NOT_CONNECTED = 0"

record Battery =
  xt60_connected :: u8
  balance_port_connected :: u8
  number_of_cells :: u8
  balancing_enabled :: u8
  requires_charging :: u8
  cell_over_voltage :: u8
  cell_balance_bitmask :: u8

text \<open>
  The readings of the analog sampler that one pass of the battery task sees
  (\<^verbatim>\<open>adc_interface.c\<close> is a collaborator): one snapshot per pass.
\<close>

record adc_readings =
  Get_Battery_Voltage :: u32
  Get_Cell_Voltage :: "nat \<Rightarrow> u32"
  Get_Two_S_Voltage :: u32
  Get_Three_S_Voltage :: u32
  Get_Four_S_Voltage :: u32
  Get_MCU_Temperature :: int

text \<open>The four discharge-resistor outputs; \<open>True\<close> is \<^verbatim>\<open>GPIO_PIN_SET\<close>.\<close>

record balance_gpio =
  CELL_1S_DIS_EN :: bool
  CELL_2S_DIS_EN :: bool
  CELL_3S_DIS_EN :: bool
  CELL_4S_DIS_EN :: bool

text \<open>The macros of \<^verbatim>\<open>battery.h\<close> that \<^verbatim>\<open>battery.c\<close> reads.\<close>

record battery_config =
  ENABLE_BALANCING :: bool
  NUM_SERIES :: u8
  VOLTAGE_CONNECTED_THRESHOLD :: u32
  CELL_VOLTAGE_TO_ENABLE_CHARGING :: u32
  MIN_CELL_V_FOR_BALANCING :: u32
  CELL_DELTA_V_ENABLE_BALANCING :: u32
  CELL_BALANCING_HYSTERESIS_V :: u32
  CELL_BALANCING_SCALAR_MAX :: u32
  CELL_OVER_VOLTAGE_ENABLE_DISCHARGE :: u32
  CELL_OVER_VOLTAGE_DISABLE_CHARGING :: u32
  MIN_CELL_VOLTAGE_SAFE_LIMIT :: u32
  MAX_MCU_TEMP_C_FOR_OPERATION :: int
  MCU_TEMP_C_RECOVERY :: int

text \<open>
  Modelled from the spec: the ladder masks of \<^verbatim>\<open>battery.h\<close>. A candidate count is
  accepted only if all lower bits are set, so the mask tested under the highest bit is
  the run of ones below it.
\<close>

definition THREE_S_BITMASK :: u8 where
  "THREE_S_BITMASK = 7"

definition TWO_S_BITMASK :: u8 where
  "TWO_S_BITMASK = 3"

definition ONE_S_BITMASK :: u8 where
  "ONE_S_BITMASK = 1"

subsection \<open>Floating point\<close>

text \<open>
  The C code computes thresholds in \<^verbatim>\<open>float\<close> and \<^verbatim>\<open>double\<close>. A finite floating-point
  value is a rational; every operation is the exact operation followed by the rounding
  of its format. The two roundings are parameters of the model, so a theorem holds for
  every rounding it does not constrain; \<open>exact_fpu\<close> rounds nothing. A conversion to
  \<^verbatim>\<open>uint32_t\<close> truncates towards zero; out of range it is undefined in C, and the
  model then returns the value \<open>f2u_undef\<close> the platform happens to produce.
\<close>

record fpu =
  f32 :: "rat \<Rightarrow> rat"
  f64 :: "rat \<Rightarrow> rat"
  f2u_undef :: u32

definition exact_fpu :: fpu where
  "exact_fpu = \<lparr> f32 = (\<lambda>x. x), f64 = (\<lambda>x. x), f2u_undef = 0 \<rparr>"

text \<open>
  Rounding to nearest, ties to even, at a precision of \<open>p\<close> bits: the value is scaled by
  the power of two that puts it in \<open>[2 ^ (p - 1), 2 ^ p)\<close> and rounded to an integer
  there. The exponent range is not modelled (no overflow, no subnormal numbers): the
  values of this firmware are far inside it. \<open>ieee_fpu\<close> has the precisions of IEEE 754
  binary32 and binary64.
\<close>

definition pow2 :: "int \<Rightarrow> rat" where
  "pow2 z = (if 0 \<le> z then 2 ^ nat z else 1 / 2 ^ nat (- z))"

definition round_even :: "rat \<Rightarrow> int" where
  "round_even y =
     (let f = \<lfloor>y\<rfloor>; r = y - of_int f
      in if r < 1 / 2 then f else if 1 / 2 < r then f + 1 else if even f then f else f + 1)"

definition binary_exponent :: "rat \<Rightarrow> int" where
  "binary_exponent x =
     (let (n, d) = quotient_of \<bar>x\<bar>; e0 = bitlen n - bitlen d
      in if pow2 e0 \<le> \<bar>x\<bar> then e0 else e0 - 1)"

definition ieee_round :: "nat \<Rightarrow> rat \<Rightarrow> rat" where
  "ieee_round p x =
     (if x = 0 then 0
      else (let q = pow2 (binary_exponent x - (int p - 1))
            in of_int (round_even (x / q)) * q))"

definition ieee_fpu :: fpu where
  "ieee_fpu = \<lparr> f32 = ieee_round 24, f64 = ieee_round 53, f2u_undef = 0 \<rparr>"

definition u2f :: "fpu \<Rightarrow> u32 \<Rightarrow> rat" where
  "u2f fp x = f32 fp (of_nat (unat x))"

definition f2u :: "fpu \<Rightarrow> rat \<Rightarrow> u32" where
  "f2u fp x =
     (if 0 \<le> x \<and> x < 2 ^ 32 then word_of_int \<lfloor>x\<rfloor>
      else if - 1 < x \<and> x < 0 then 0
      else f2u_undef fp)"

subsection \<open>battery.c\<close>

text \<open>\<^verbatim>\<open>Balancing_GPIO_Control\<close>: one output per bit of the mask.\<close>

definition Balancing_GPIO_Control :: "u8 \<Rightarrow> balance_gpio" where
  "Balancing_GPIO_Control cell_balancing_gpio_bitmask =
     \<lparr> CELL_1S_DIS_EN = (cell_balancing_gpio_bitmask AND push_bit 0 1 \<noteq> 0),
       CELL_2S_DIS_EN = (cell_balancing_gpio_bitmask AND push_bit 1 1 \<noteq> 0),
       CELL_3S_DIS_EN = (cell_balancing_gpio_bitmask AND push_bit 2 1 \<noteq> 0),
       CELL_4S_DIS_EN = (cell_balancing_gpio_bitmask AND push_bit 3 1 \<noteq> 0) \<rparr>"

text \<open>Lines 43 to 52 of \<^verbatim>\<open>Balance_Battery\<close>: minimum and maximum over the cells in use.\<close>

definition cell_min_max :: "adc_readings \<Rightarrow> u8 \<Rightarrow> u32 \<times> u32" where
  "cell_min_max adc n =
     fold (\<lambda>i (mn, mx).
             (if Get_Cell_Voltage adc i < mn then Get_Cell_Voltage adc i else mn,
              if Get_Cell_Voltage adc i > mx then Get_Cell_Voltage adc i else mx))
          [1 ..< unat n]
          (Get_Cell_Voltage adc 0, Get_Cell_Voltage adc 0)"

text \<open>
  Lines 54 to 65: the threshold scalar. The quotient's divisor is a constant of the
  configuration; the model is for configurations where it is not zero (C would give an
  infinity or a NaN there, HOL gives 0).
\<close>

definition balancing_scalar :: "battery_config \<Rightarrow> fpu \<Rightarrow> u8 \<Rightarrow> u32 \<Rightarrow> rat" where
  "balancing_scalar cfg fp xt60 max_cell_voltage =
     (if xt60 = CONNECTED then
        (let scalar =
           f32 fp (u2f fp (CELL_BALANCING_SCALAR_MAX cfg) *
             f32 fp (1 -
               f32 fp (f32 fp (u2f fp max_cell_voltage - u2f fp (MIN_CELL_V_FOR_BALANCING cfg)) /
                       f32 fp (u2f fp (CELL_VOLTAGE_TO_ENABLE_CHARGING cfg)
                               - u2f fp (MIN_CELL_V_FOR_BALANCING cfg)))))
         in if scalar < 1 then 1 else scalar)
      else 1)"

text \<open>Lines 67 to 72: the balancing latch.\<close>

definition balancing_latch :: "battery_config \<Rightarrow> fpu \<Rightarrow> rat \<Rightarrow> u32 \<Rightarrow> u32 \<Rightarrow> u8 \<Rightarrow> u8" where
  "balancing_latch cfg fp scalar min_cell_voltage max_cell_voltage enabled =
     (if u2f fp (max_cell_voltage - min_cell_voltage)
           \<ge> f32 fp (u2f fp (CELL_DELTA_V_ENABLE_BALANCING cfg) * scalar)
         \<and> min_cell_voltage > MIN_CELL_V_FOR_BALANCING cfg
         \<and> enabled = 0
      then 1
      else if (u2f fp (max_cell_voltage - min_cell_voltage)
                 < f32 fp (u2f fp (CELL_BALANCING_HYSTERESIS_V cfg) * scalar)
               \<and> enabled = 1)
              \<or> min_cell_voltage < MIN_CELL_V_FOR_BALANCING cfg
      then 0
      else enabled)"

text \<open>Lines 77 to 87: one discharge bit per cell in use.\<close>

definition balance_bits ::
  "battery_config \<Rightarrow> fpu \<Rightarrow> adc_readings \<Rightarrow> rat \<Rightarrow> u32 \<Rightarrow> u8 \<Rightarrow> u8 \<Rightarrow> u8 \<Rightarrow> u8" where
  "balance_bits cfg fp adc scalar min_cell_voltage enabled n bitmask =
     fold (\<lambda>i bm.
             if enabled = 1
                \<and> u2f fp (Get_Cell_Voltage adc i - min_cell_voltage)
                    \<ge> f32 fp (u2f fp (CELL_BALANCING_HYSTERESIS_V cfg) * scalar)
             then bm OR push_bit i 1
             else if Get_Cell_Voltage adc i \<ge> CELL_OVER_VOLTAGE_ENABLE_DISCHARGE cfg
             then bm OR push_bit i 1
             else bm AND NOT (push_bit i 1))
          [0 ..< unat n] bitmask"

text \<open>
  \<^verbatim>\<open>Balance_Battery\<close>: the state it writes is the battery record and the four outputs.
\<close>

definition Balance_Battery ::
  "battery_config \<Rightarrow> fpu \<Rightarrow> adc_readings \<Rightarrow> error_state \<Rightarrow> Battery \<times> balance_gpio
     \<Rightarrow> Battery \<times> balance_gpio" where
  "Balance_Battery cfg fp adc es st =
     (let bs = fst st in
      if ENABLE_BALANCING cfg \<and> balance_port_connected bs = CONNECTED \<and> no_errors es then
        (let (min_cell_voltage, max_cell_voltage) = cell_min_max adc (number_of_cells bs);
             scalar = balancing_scalar cfg fp (xt60_connected bs) max_cell_voltage;
             enabled = balancing_latch cfg fp scalar min_cell_voltage max_cell_voltage
                         (balancing_enabled bs);
             bitmask = balance_bits cfg fp adc scalar min_cell_voltage enabled
                         (number_of_cells bs) (cell_balance_bitmask bs)
         in (bs\<lparr> balancing_enabled := enabled, cell_balance_bitmask := bitmask \<rparr>,
             Balancing_GPIO_Control bitmask))
      else (bs\<lparr> balancing_enabled := 0 \<rparr>, Balancing_GPIO_Control 0))"

text \<open>Lines 102 to 125 of \<^verbatim>\<open>Balance_Connection_State\<close>: the ladder probe.\<close>

definition ladder_probe :: "battery_config \<Rightarrow> adc_readings \<Rightarrow> u8 \<Rightarrow> u8" where
  "ladder_probe cfg adc cell_connected_bitmask =
     (let t = VOLTAGE_CONNECTED_THRESHOLD cfg;
          b3 = (if Get_Four_S_Voltage adc > t \<and> Get_Cell_Voltage adc 3 > t
                then cell_connected_bitmask OR 8 else cell_connected_bitmask AND NOT 8);
          b2 = (if Get_Three_S_Voltage adc > t \<and> Get_Cell_Voltage adc 2 > t
                then b3 OR 4 else b3 AND NOT 4);
          b1 = (if Get_Two_S_Voltage adc > t \<and> Get_Cell_Voltage adc 1 > t
                then b2 OR 2 else b2 AND NOT 2)
      in if Get_Cell_Voltage adc 0 > t then b1 OR 1 else b1 AND NOT 1)"

text \<open>Lines 127 to 160: the cell count and the connection fault.\<close>

definition cell_count :: "u8 \<Rightarrow> error_state \<Rightarrow> u8 \<times> error_state" where
  "cell_count cell_connected_bitmask es =
     (if cell_connected_bitmask AND push_bit 3 1 \<noteq> 0 then
        (if cell_connected_bitmask AND THREE_S_BITMASK = THREE_S_BITMASK
         then (4, Clear_Error_State CELL_CONNECTION_ERROR es)
         else (0, Set_Error_State CELL_CONNECTION_ERROR es))
      else if cell_connected_bitmask AND push_bit 2 1 \<noteq> 0 then
        (if cell_connected_bitmask AND TWO_S_BITMASK = TWO_S_BITMASK
         then (3, Clear_Error_State CELL_CONNECTION_ERROR es)
         else (0, Set_Error_State CELL_CONNECTION_ERROR es))
      else if cell_connected_bitmask AND push_bit 1 1 \<noteq> 0 then
        (if cell_connected_bitmask AND ONE_S_BITMASK = ONE_S_BITMASK
         then (2, Clear_Error_State CELL_CONNECTION_ERROR es)
         else (0, Set_Error_State CELL_CONNECTION_ERROR es))
      else (0, Clear_Error_State CELL_CONNECTION_ERROR es))"

text \<open>
  \<^verbatim>\<open>Balance_Connection_State\<close>: the state is the static ladder mask, the fault registry
  and the battery record.
\<close>

definition Balance_Connection_State ::
  "battery_config \<Rightarrow> adc_readings \<Rightarrow> u8 \<times> error_state \<times> Battery \<Rightarrow> u8 \<times> error_state \<times> Battery" where
  "Balance_Connection_State cfg adc st =
     (case st of (cell_connected_bitmask, es, bs) \<Rightarrow>
        (let m = ladder_probe cfg adc cell_connected_bitmask;
             (n, es') = cell_count m es
         in (m, es',
             bs\<lparr> number_of_cells := n,
                 balance_port_connected := (if n > 1 then CONNECTED else NOT_CONNECTED) \<rparr>)))"

text \<open>\<^verbatim>\<open>Cell_Voltage_Safety_Check\<close>: the two flags are locals, set in the loop.\<close>

definition Cell_Voltage_Safety_Check ::
  "battery_config \<Rightarrow> adc_readings \<Rightarrow> error_state \<times> Battery \<Rightarrow> error_state \<times> Battery" where
  "Cell_Voltage_Safety_Check cfg adc st =
     (case st of (es, bs) \<Rightarrow>
        (let (over_voltage_temp, under_voltage_temp) =
               fold (\<lambda>i (ov, uv).
                       (if Get_Cell_Voltage adc i > CELL_OVER_VOLTAGE_DISABLE_CHARGING cfg
                        then 1 else ov,
                        if Get_Cell_Voltage adc i < MIN_CELL_VOLTAGE_SAFE_LIMIT cfg
                        then 1 else uv))
                    [0 ..< unat (number_of_cells bs)] (0 :: u8, 0 :: u8)
         in ((if under_voltage_temp = 1 then Set_Error_State CELL_VOLTAGE_ERROR es
              else Clear_Error_State CELL_VOLTAGE_ERROR es),
             bs\<lparr> cell_over_voltage := over_voltage_temp \<rparr>)))"

text \<open>\<^verbatim>\<open>MCU_Temperature_Safety_Check\<close>.\<close>

definition MCU_Temperature_Safety_Check ::
  "battery_config \<Rightarrow> adc_readings \<Rightarrow> error_state \<Rightarrow> error_state" where
  "MCU_Temperature_Safety_Check cfg adc es =
     (if Get_MCU_Temperature adc > MAX_MCU_TEMP_C_FOR_OPERATION cfg
      then Set_Error_State MCU_OVER_TEMP es
      else if has_error MCU_OVER_TEMP es \<and> Get_MCU_Temperature adc < MCU_TEMP_C_RECOVERY cfg
      then Clear_Error_State MCU_OVER_TEMP es
      else es)"

text \<open>
  The whole state of the battery task: the static ladder mask, the fault registry, the
  battery record and the discharge outputs.
\<close>

record monitor =
  cell_connected_bitmask :: u8
  errors :: error_state
  battery_state :: Battery
  dis_en :: balance_gpio

text \<open>
  \<^verbatim>\<open>Battery_Connection_State\<close>, one pass of the battery task. \<open>charging_state\<close> is what
  \<^verbatim>\<open>Get_Regulator_Charging_State()\<close> returns during the pass.
\<close>

definition Battery_Connection_State ::
  "battery_config \<Rightarrow> fpu \<Rightarrow> adc_readings \<Rightarrow> u8 \<Rightarrow> monitor \<Rightarrow> monitor" where
  "Battery_Connection_State cfg fp adc charging_state mon =
     (let bs0 = (battery_state mon)
                  \<lparr> xt60_connected :=
                      (if Get_Battery_Voltage adc > VOLTAGE_CONNECTED_THRESHOLD cfg
                       then CONNECTED else NOT_CONNECTED) \<rparr>;
          (m, es1, bs1) =
            (if ENABLE_BALANCING cfg
             then Balance_Connection_State cfg adc (cell_connected_bitmask mon, errors mon, bs0)
             else (cell_connected_bitmask mon,
                   Clear_Error_State CELL_CONNECTION_ERROR (errors mon),
                   bs0\<lparr> balance_port_connected := CONNECTED,
                        number_of_cells := NUM_SERIES cfg \<rparr>));
          es2 = MCU_Temperature_Safety_Check cfg adc es1;
          (es3, bs3) =
            (if ENABLE_BALANCING cfg then Cell_Voltage_Safety_Check cfg adc (es2, bs1)
             else (es2, bs1));
          (bs4, gp4) =
            (if ENABLE_BALANCING cfg \<and> charging_state = 0
             then Balance_Battery cfg fp adc es3 (bs3, dis_en mon)
             else (bs3, dis_en mon));
          bs5 =
            (if xt60_connected bs4 = CONNECTED \<and> balance_port_connected bs4 = CONNECTED then
               (if Get_Battery_Voltage adc
                     < ucast (number_of_cells bs4) * CELL_VOLTAGE_TO_ENABLE_CHARGING cfg
                then bs4\<lparr> requires_charging := 1 \<rparr>
                else bs4\<lparr> requires_charging := 0 \<rparr>)
             else bs4\<lparr> requires_charging := 0 \<rparr>)
      in \<lparr> cell_connected_bitmask = m, errors = es3, battery_state = bs5, dis_en = gp4 \<rparr>)"

subsection \<open>Regulator state, configuration and commands\<close>

record Regulator =
  reg_connected :: u8
  charging_status :: u8
  max_charge_voltage :: u16
  input_current_limit :: u8
  min_input_voltage_limit :: u16
  vbus_voltage :: u32
  vbat_voltage :: u32
  vsys_voltage :: u32
  charge_current :: u32
  input_current :: u32
  max_charge_current_ma :: u32

datatype pin = ILIM_HIZ | FAN_ENn | EN_OTG

datatype reg_addr =
    CHARGE_OPTION_0_ADDR
  | CHARGE_CURRENT_ADDR
  | MAX_CHARGE_VOLTAGE_ADDR
  | MINIMUM_SYSTEM_VOLTAGE_ADDR
  | ADC_OPTION_ADDR

text \<open>
  What the controller does to the hardware, in the order it does it: a pin write
  (\<open>True\<close> is \<^verbatim>\<open>GPIO_PIN_SET\<close>), a register write handed to the bus layer (the
  two-byte write carries the LSB first, as \<^verbatim>\<open>I2C_Write_Two_Byte_Register\<close> takes it),
  a cooperative delay in ticks, and the two reads of a refresh.
\<close>

datatype event =
    HAL_GPIO_WritePin pin bool
  | I2C_Write_Register reg_addr u8
  | I2C_Write_Two_Byte_Register reg_addr u8 u8
  | vTaskDelay nat
  | ChargeStatus_Read
  | ADC_Read

text \<open>
  The globals of \<^verbatim>\<open>bq25703a_regulator.c\<close>, the static counter of
  \<^verbatim>\<open>Control_Charger_Output\<close>, and the commands issued so far (oldest first).
\<close>

record controller =
  regulator :: Regulator
  precharging_state :: u8
  termination_counter :: u16
  trace :: "event list"

text \<open>The bit codes of \<^verbatim>\<open>bq25703a_regulator.h\<close> for the two voltage registers.\<close>

record voltage_bits =
  MAX_VOLT_ADD_16384_MV :: u8
  MAX_VOLT_ADD_8192_MV :: u8
  MAX_VOLT_ADD_4096_MV :: u8
  MAX_VOLT_ADD_256_MV :: u8
  MAX_VOLT_ADD_128_MV :: u8
  MAX_VOLT_ADD_64_MV :: u8
  MAX_VOLT_ADD_32_MV :: u8
  MAX_VOLT_ADD_16_MV :: u8
  MIN_VOLT_ADD_8192_MV :: u8
  MIN_VOLT_ADD_4096_MV :: u8
  MIN_VOLT_ADD_2048_MV :: u8
  MIN_VOLT_ADD_1024_MV :: u8
  MIN_VOLT_ADD_512_MV :: u8
  MIN_VOLT_ADD_256_MV :: u8

text \<open>The decoding constants of the regulator's status and ADC registers.\<close>

record adc_config =
  CHARGING_ENABLED_MASK :: u8
  VBAT_ADC_SCALE :: u32
  VBAT_ADC_OFFSET :: u32
  VSYS_ADC_SCALE :: u32
  VSYS_ADC_OFFSET :: u32
  ICHG_ADC_SCALE :: u32
  IIN_ADC_SCALE :: u32
  VBUS_ADC_SCALE :: u32
  VBUS_ADC_OFFSET :: u32

text \<open>The remaining macros that \<^verbatim>\<open>bq25703a_regulator.c\<close> reads.\<close>

record regulator_config =
  FIXED_VOLTAGE_CHARGING :: bool
  FIXED_VOLTAGE_SETPOINT :: u16
  FIXED_VOLTAGE_PRECHARGE :: u16
  ATTEMPT_UVP_RECOVERY :: bool
  MAX_CHARGE_CURRENT_MA :: u32
  MAX_CHARGING_POWER :: u32
  ASSUME_EFFICIENCY :: rat
  UVP_RECOVERY_CURRENT_MA :: u32
  CHARGE_TERM_CURRENT_MA :: rat
  BATTERY_DISCONNECT_THRESH :: u32
  REG_ADC_MULTIPLIER :: u32
  BATTERY_ADC_MULTIPLIER :: u32
  TEMP_THROTTLE_THRESH_C :: int
  portTICK_PERIOD_MS :: nat
  vbits :: voltage_bits
  adc_cfg :: adc_config

text \<open>The USB-PD collaborator, as the controller reads it.\<close>

datatype power_ready = READY | NOT_READY | NO_USB_PD_SUPPLY

record usbpd =
  Get_Input_Power_Ready :: power_ready
  Get_Max_Input_Current :: u32
  Get_Max_Input_Power :: u32

text \<open>
  What the regulator answers to one \<^verbatim>\<open>Read_Charge_Status(); Regulator_Read_ADC();\<close>:
  the high byte of ChargeStatus and the five conversion results.
\<close>

record sample =
  status_msb :: u8
  vbat_adc :: u8
  vsys_adc :: u8
  ichg_adc :: u8
  iin_adc :: u8
  vbus_adc :: u8

definition emit :: "event \<Rightarrow> controller \<Rightarrow> controller" where
  "emit e c = c\<lparr> trace := trace c @ [e] \<rparr>"

subsection \<open>bq25703a\_regulator.c\<close>

definition Regulator_HI_Z :: "u8 \<Rightarrow> controller \<Rightarrow> controller" where
  "Regulator_HI_Z hi_z_en c =
     (if hi_z_en = 1
      then emit (HAL_GPIO_WritePin FAN_ENn True) (emit (HAL_GPIO_WritePin ILIM_HIZ False) c)
      else emit (HAL_GPIO_WritePin FAN_ENn False) (emit (HAL_GPIO_WritePin ILIM_HIZ True) c))"

definition Set_Charge_Current :: "regulator_config \<Rightarrow> u32 \<Rightarrow> controller \<Rightarrow> controller" where
  "Set_Charge_Current cfg limit c =
     (let charge_current_limit =
            (if limit > MAX_CHARGE_CURRENT_MA cfg then MAX_CHARGE_CURRENT_MA cfg else limit);
          c1 = c\<lparr> regulator :=
                    (regulator c)\<lparr> max_charge_current_ma := charge_current_limit \<rparr> \<rparr>;
          cc0 =
            (if charge_current_limit \<noteq> 0 then charge_current_limit div 64 else 0);
          cc = (if cc0 > 128 then 128 else cc0);
          (charge_current_register_1_value, charge_current_register_2_value) =
            (if cc \<ge> 0 \<or> cc \<le> 128
             then (ucast (drop_bit 2 cc) :: u8,
                   ucast (push_bit 6 cc) :: u8)
             else (0, 0))
      in emit (I2C_Write_Two_Byte_Register CHARGE_CURRENT_ADDR
                 charge_current_register_2_value charge_current_register_1_value) c1)"

text \<open>
  \<^verbatim>\<open>Set_Charge_Voltage\<close>: the three bytes it computes, then the two writes. Under
  \<^verbatim>\<open>FIXED_VOLTAGE_CHARGING\<close> the cell count is not read.
\<close>

definition charge_voltage_bytes :: "regulator_config \<Rightarrow> u8 \<Rightarrow> u8 \<times> u8 \<times> u8" where
  "charge_voltage_bytes cfg n_cells =
     (let b = vbits cfg in
      if FIXED_VOLTAGE_CHARGING cfg then
        (ucast (drop_bit 8 (FIXED_VOLTAGE_SETPOINT cfg AND 0xFF00)),
         ucast (FIXED_VOLTAGE_SETPOINT cfg AND 0x00FF),
         ucast (drop_bit 8 (FIXED_VOLTAGE_PRECHARGE cfg AND 0xFF00)))
      else if n_cells > 0 \<or> n_cells < 5 then
        (if n_cells = 1 then
           (MAX_VOLT_ADD_4096_MV b,
            MAX_VOLT_ADD_64_MV b OR MAX_VOLT_ADD_32_MV b,
            MIN_VOLT_ADD_2048_MV b OR MIN_VOLT_ADD_512_MV b OR MIN_VOLT_ADD_256_MV b)
         else if n_cells = 2 then
           (MAX_VOLT_ADD_8192_MV b,
            MAX_VOLT_ADD_128_MV b OR MAX_VOLT_ADD_64_MV b OR MAX_VOLT_ADD_16_MV b,
            MIN_VOLT_ADD_4096_MV b OR MIN_VOLT_ADD_1024_MV b OR MIN_VOLT_ADD_512_MV b)
         else if n_cells = 3 then
           (MAX_VOLT_ADD_8192_MV b OR MAX_VOLT_ADD_4096_MV b OR MAX_VOLT_ADD_256_MV b,
            MAX_VOLT_ADD_32_MV b OR MAX_VOLT_ADD_16_MV b,
            MIN_VOLT_ADD_8192_MV b OR MIN_VOLT_ADD_256_MV b)
         else if n_cells = 4 then
           (MAX_VOLT_ADD_16384_MV b OR MAX_VOLT_ADD_256_MV b,
            MAX_VOLT_ADD_128_MV b OR MAX_VOLT_ADD_32_MV b,
            MIN_VOLT_ADD_8192_MV b OR MIN_VOLT_ADD_2048_MV b OR MIN_VOLT_ADD_1024_MV b)
         else (0, 0, MIN_VOLT_ADD_1024_MV b))
      else (0, 0, MIN_VOLT_ADD_1024_MV b))"

definition Set_Charge_Voltage :: "regulator_config \<Rightarrow> u8 \<Rightarrow> controller \<Rightarrow> controller" where
  "Set_Charge_Voltage cfg n_cells c =
     (let (max_charge_register_1_value, max_charge_register_2_value,
           minimum_system_voltage_value) = charge_voltage_bytes cfg n_cells
      in emit (I2C_Write_Two_Byte_Register MAX_CHARGE_VOLTAGE_ADDR
                 max_charge_register_2_value max_charge_register_1_value)
           (emit (I2C_Write_Register MINIMUM_SYSTEM_VOLTAGE_ADDR minimum_system_voltage_value)
              c))"

text \<open>
  \<^verbatim>\<open>Calculate_Max_Charge_Power\<close>. \<open>0.0333\<close> is a \<^verbatim>\<open>double\<close> literal, so the product
  with the temperature is a \<^verbatim>\<open>double\<close> converted to \<^verbatim>\<open>float\<close>; \<open>1.66f\<close> and \<open>1.0f\<close>
  are \<^verbatim>\<open>float\<close> literals.
\<close>

definition power_scalar :: "fpu \<Rightarrow> int \<Rightarrow> rat" where
  "power_scalar fp mcu_temperature =
     (let temperature = f32 fp (of_int mcu_temperature);
          s0 = f32 fp (1 - f32 fp (f32 fp (f64 fp (f64 fp (333 / 10000) * temperature))
                                   - f32 fp (166 / 100)));
          s1 = (if s0 > 1 then 1 else s0)
      in if s1 < 0 then 0 else s1)"

definition Calculate_Max_Charge_Power ::
  "regulator_config \<Rightarrow> fpu \<Rightarrow> usbpd \<Rightarrow> adc_readings \<Rightarrow> Regulator \<Rightarrow> u32" where
  "Calculate_Max_Charge_Power cfg fp usb adc reg =
     (let p0 = f2u fp (f32 fp (f32 fp (u2f fp (vbus_voltage reg div REG_ADC_MULTIPLIER cfg)
                                        * u2f fp (Get_Max_Input_Current usb))
                               * ASSUME_EFFICIENCY cfg));
          p1 = (if p0 > MAX_CHARGING_POWER cfg then MAX_CHARGING_POWER cfg else p0);
          p2 = (if p1 > Get_Max_Input_Power usb
                then f2u fp (f32 fp (u2f fp (Get_Max_Input_Power usb) * ASSUME_EFFICIENCY cfg))
                else p1)
      in if Get_MCU_Temperature adc > TEMP_THROTTLE_THRESH_C cfg
         then f2u fp (f32 fp (u2f fp p2 * power_scalar fp (Get_MCU_Temperature adc)))
         else p2)"

text \<open>
  Line 503: the charge current. A zero divisor gives an infinity or a NaN in C, whose
  conversion to \<^verbatim>\<open>uint32_t\<close> is undefined.
\<close>

definition charging_current_ma :: "regulator_config \<Rightarrow> fpu \<Rightarrow> u32 \<Rightarrow> u32 \<Rightarrow> u32" where
  "charging_current_ma cfg fp charging_power_mw battery_voltage =
     (let d = u2f fp (battery_voltage div BATTERY_ADC_MULTIPLIER cfg)
      in if d = 0 then f2u_undef fp else f2u fp (f32 fp (u2f fp charging_power_mw / d)))"

text \<open>
  Line 516 and the test of line 518. With a zero multiplier the quotient is an infinity
  or a NaN, and the comparison is false.
\<close>

definition below_termination_current :: "regulator_config \<Rightarrow> fpu \<Rightarrow> u32 \<Rightarrow> bool" where
  "below_termination_current cfg fp reading =
     (REG_ADC_MULTIPLIER cfg \<noteq> 0 \<and>
      f32 fp (f32 fp (u2f fp reading / u2f fp (REG_ADC_MULTIPLIER cfg)) * 1000)
        < CHARGE_TERM_CURRENT_MA cfg)"

definition Control_Charger_Output ::
  "battery_config \<Rightarrow> regulator_config \<Rightarrow> fpu \<Rightarrow> Battery \<Rightarrow> error_state \<Rightarrow> usbpd \<Rightarrow> adc_readings
     \<Rightarrow> controller \<Rightarrow> controller" where
  "Control_Charger_Output bcfg cfg fp bs es usb adc c =
     (let xDelay = 500 div portTICK_PERIOD_MS cfg;
          balance_connection_state =
            (if ENABLE_BALANCING bcfg then balance_port_connected bs else CONNECTED)
      in if xt60_connected bs = CONNECTED \<and> balance_connection_state = CONNECTED
            \<and> no_errors es \<and> Get_Input_Power_Ready usb = READY \<and> cell_over_voltage bs = 0
         then
           (let c1 = Set_Charge_Voltage cfg
                       (if ENABLE_BALANCING bcfg then number_of_cells bs else NUM_SERIES bcfg) c;
                c2 = Set_Charge_Current cfg
                       (charging_current_ma cfg fp
                          (Calculate_Max_Charge_Power cfg fp usb adc (regulator c1))
                          (Get_Battery_Voltage adc)) c1;
                c3 = Regulator_HI_Z 0 c2;
                c4 = (if vbat_voltage (regulator c3)
                           > BATTERY_DISCONNECT_THRESH cfg * ucast (number_of_cells bs)
                      then Regulator_HI_Z 0 (emit (vTaskDelay (xDelay * 2)) (Regulator_HI_Z 1 c3))
                      else c3)
            in if requires_charging bs = 0
                  \<and> below_termination_current cfg fp (charge_current (regulator c4))
               then
                 (let c5 = c4\<lparr> termination_counter := termination_counter c4 + 1 \<rparr>
                  in if termination_counter c5 > 3
                     then emit (vTaskDelay xDelay) (Regulator_HI_Z 1 c5)
                     else c5)
               else c4\<lparr> termination_counter := 0 \<rparr>)
         else Set_Charge_Current cfg 0 (Set_Charge_Voltage cfg 0 (Regulator_HI_Z 1 c)))"

text \<open>\<^verbatim>\<open>Read_Charge_Status\<close> and \<^verbatim>\<open>Regulator_Read_ADC\<close>, given the bytes the bus returned.\<close>

definition Read_Charge_Status :: "regulator_config \<Rightarrow> sample \<Rightarrow> controller \<Rightarrow> controller" where
  "Read_Charge_Status cfg s c =
     emit ChargeStatus_Read
       (c\<lparr> regulator := (regulator c)
              \<lparr> charging_status :=
                  (if status_msb s AND CHARGING_ENABLED_MASK (adc_cfg cfg) \<noteq> 0 then 1 else 0) \<rparr> \<rparr>)"

definition Regulator_Read_ADC :: "regulator_config \<Rightarrow> sample \<Rightarrow> controller \<Rightarrow> controller" where
  "Regulator_Read_ADC cfg s c =
     (let a = adc_cfg cfg in
      emit ADC_Read
        (c\<lparr> regulator := (regulator c)
               \<lparr> vbat_voltage := ucast (vbat_adc s) * VBAT_ADC_SCALE a + VBAT_ADC_OFFSET a,
                 vsys_voltage := ucast (vsys_adc s) * VSYS_ADC_SCALE a + VSYS_ADC_OFFSET a,
                 charge_current := ucast (ichg_adc s) * ICHG_ADC_SCALE a,
                 input_current := ucast (iin_adc s) * IIN_ADC_SCALE a,
                 vbus_voltage := ucast (vbus_adc s) * VBUS_ADC_SCALE a + VBUS_ADC_OFFSET a \<rparr> \<rparr>))"

text \<open>
  A refresh needs the regulator to answer: \<^verbatim>\<open>Regulator_Read_ADC\<close> polls the
  start-of-conversion bit for as long as it reads as set. The answers that arrive are a
  list, one \<open>sample\<close> per refresh; a refresh with no answer left never returns, and the
  function that needed it has the value \<open>None\<close>.
\<close>









text \<open>
  Reading a trace: the last command of a kind, where \<open>f\<close> picks the commands of that
  kind and what they carry.
\<close>

definition last_command :: "(event \<Rightarrow> 'a option) \<Rightarrow> event list \<Rightarrow> 'a option" where
  "last_command f evs = fold (\<lambda>e r. case f e of None \<Rightarrow> r | Some v \<Rightarrow> Some v) evs None"

text \<open>
  A write of the high-impedance line: \<open>Some True\<close> is Hi-Z on (the pin is active low,
  \<^verbatim>\<open>Regulator_HI_Z(1)\<close> resets it).
\<close>

fun hi_z_of :: "event \<Rightarrow> bool option" where
  "hi_z_of (HAL_GPIO_WritePin p v) = (if p = ILIM_HIZ then Some (\<not> v) else None)"
| "hi_z_of _ = None"

definition hi_z_command :: "event list \<Rightarrow> bool option" where
  "hi_z_command = last_command hi_z_of"

text \<open>The bytes (LSB, MSB) of a write of a two-byte register.\<close>

fun two_bytes_of :: "reg_addr \<Rightarrow> event \<Rightarrow> (u8 \<times> u8) option" where
  "two_bytes_of r (I2C_Write_Two_Byte_Register a lsb msb) =
     (if a = r then Some (lsb, msb) else None)"
| "two_bytes_of r _ = None"

fun byte_of :: "reg_addr \<Rightarrow> event \<Rightarrow> u8 option" where
  "byte_of r (I2C_Write_Register a b) = (if a = r then Some b else None)"
| "byte_of r _ = None"

definition charge_current_command :: "event list \<Rightarrow> (u8 \<times> u8) option" where
  "charge_current_command = last_command (two_bytes_of CHARGE_CURRENT_ADDR)"

definition charge_voltage_command :: "event list \<Rightarrow> (u8 \<times> u8) option" where
  "charge_voltage_command = last_command (two_bytes_of MAX_CHARGE_VOLTAGE_ADDR)"

definition min_system_voltage_command :: "event list \<Rightarrow> u8 option" where
  "min_system_voltage_command = last_command (byte_of MINIMUM_SYSTEM_VOLTAGE_ADDR)"

text \<open>The current in mA that the two bytes of the ChargeCurrent register stand for.\<close>

definition charge_current_ma_of :: "u8 \<times> u8 \<Rightarrow> nat" where
  "charge_current_ma_of bytes =
     64 * (4 * unat (snd bytes) + unat (fst bytes) div 64)"

subsection \<open>A configuration for the examples\<close>

text \<open>
  Modelled from the spec: the register map gives MaxChargeVoltage and
  MinimumSystemVoltage as additive millivolt codes. The codes below are the BQ25703A's:
  in the high byte of MaxChargeVoltage bit 0 adds 256 mV and each higher bit doubles it,
  in the low byte bits 4 to 7 add 16 to 128 mV, and in MinimumSystemVoltage bit 0 adds
  256 mV and each higher bit doubles it.
\<close>

definition bq25703a_bits :: voltage_bits where
  "bq25703a_bits =
     \<lparr> MAX_VOLT_ADD_16384_MV = 0x40, MAX_VOLT_ADD_8192_MV = 0x20,
       MAX_VOLT_ADD_4096_MV = 0x10, MAX_VOLT_ADD_256_MV = 0x01,
       MAX_VOLT_ADD_128_MV = 0x80, MAX_VOLT_ADD_64_MV = 0x40,
       MAX_VOLT_ADD_32_MV = 0x20, MAX_VOLT_ADD_16_MV = 0x10,
       MIN_VOLT_ADD_8192_MV = 0x20, MIN_VOLT_ADD_4096_MV = 0x10,
       MIN_VOLT_ADD_2048_MV = 0x08, MIN_VOLT_ADD_1024_MV = 0x04,
       MIN_VOLT_ADD_512_MV = 0x02, MIN_VOLT_ADD_256_MV = 0x01 \<rparr>"

text \<open>
  Modelled from the spec: the scale and offset of each ADC result register, in
  millivolts and milliamperes, from the register map. The mask of the charging bit is an
  example value.
\<close>

definition bq25703a_adc :: adc_config where
  "bq25703a_adc =
     \<lparr> CHARGING_ENABLED_MASK = 0x04,
       VBAT_ADC_SCALE = 64, VBAT_ADC_OFFSET = 2880,
       VSYS_ADC_SCALE = 64, VSYS_ADC_OFFSET = 2880,
       ICHG_ADC_SCALE = 64, IIN_ADC_SCALE = 50,
       VBUS_ADC_SCALE = 64, VBUS_ADC_OFFSET = 3200 \<rparr>"

text \<open>
  The thresholds of the two headers are not among the sources. The examples use the
  values below, voltages in millivolts (both ADC multipliers are 1000), a 1 ms tick.
\<close>

definition example_battery_config :: battery_config where
  "example_battery_config =
     \<lparr> ENABLE_BALANCING = True, NUM_SERIES = 4,
       VOLTAGE_CONNECTED_THRESHOLD = 2000,
       CELL_VOLTAGE_TO_ENABLE_CHARGING = 4180,
       MIN_CELL_V_FOR_BALANCING = 3000,
       CELL_DELTA_V_ENABLE_BALANCING = 50,
       CELL_BALANCING_HYSTERESIS_V = 10,
       CELL_BALANCING_SCALAR_MAX = 20,
       CELL_OVER_VOLTAGE_ENABLE_DISCHARGE = 4205,
       CELL_OVER_VOLTAGE_DISABLE_CHARGING = 4220,
       MIN_CELL_VOLTAGE_SAFE_LIMIT = 2000,
       MAX_MCU_TEMP_C_FOR_OPERATION = 70,
       MCU_TEMP_C_RECOVERY = 60 \<rparr>"

definition example_regulator_config :: regulator_config where
  "example_regulator_config =
     \<lparr> FIXED_VOLTAGE_CHARGING = False, FIXED_VOLTAGE_SETPOINT = 0,
       FIXED_VOLTAGE_PRECHARGE = 0, ATTEMPT_UVP_RECOVERY = True,
       MAX_CHARGE_CURRENT_MA = 6000, MAX_CHARGING_POWER = 60000,
       ASSUME_EFFICIENCY = 9 / 10, UVP_RECOVERY_CURRENT_MA = 128,
       CHARGE_TERM_CURRENT_MA = 100, BATTERY_DISCONNECT_THRESH = 4300,
       REG_ADC_MULTIPLIER = 1000, BATTERY_ADC_MULTIPLIER = 1000,
       TEMP_THROTTLE_THRESH_C = 40, portTICK_PERIOD_MS = 1,
       vbits = bq25703a_bits, adc_cfg = bq25703a_adc \<rparr>"

text \<open>Readings with the four cells at the given voltages and the taps at their sums.\<close>

definition cells_adc :: "u32 \<Rightarrow> u32 \<Rightarrow> u32 \<Rightarrow> u32 \<Rightarrow> int \<Rightarrow> adc_readings" where
  "cells_adc v0 v1 v2 v3 t =
     \<lparr> Get_Battery_Voltage = v0 + v1 + v2 + v3,
       Get_Cell_Voltage = (\<lambda>i. if i = 0 then v0 else if i = 1 then v1
                                else if i = 2 then v2 else v3),
       Get_Two_S_Voltage = v0 + v1,
       Get_Three_S_Voltage = v0 + v1 + v2,
       Get_Four_S_Voltage = v0 + v1 + v2 + v3,
       Get_MCU_Temperature = t \<rparr>"

definition idle_battery :: Battery where
  "idle_battery =
     \<lparr> xt60_connected = 0, balance_port_connected = 0, number_of_cells = 0,
       balancing_enabled = 0, requires_charging = 0, cell_over_voltage = 0,
       cell_balance_bitmask = 0 \<rparr>"

definition idle_regulator :: Regulator where
  "idle_regulator =
     \<lparr> reg_connected = 1, charging_status = 0, max_charge_voltage = 0,
       input_current_limit = 0, min_input_voltage_limit = 0, vbus_voltage = 0,
       vbat_voltage = 0, vsys_voltage = 0, charge_current = 0, input_current = 0,
       max_charge_current_ma = 0 \<rparr>"

definition boot_controller :: controller where
  "boot_controller =
     \<lparr> regulator = idle_regulator, precharging_state = 0, termination_counter = 0,
       trace = [] \<rparr>"

text \<open>A 20 V, 3 A USB-PD source, with the regulator reading 20 V on VBUS.\<close>

definition pd_20v_3a :: usbpd where
  "pd_20v_3a =
     \<lparr> Get_Input_Power_Ready = READY, Get_Max_Input_Current = 3000,
       Get_Max_Input_Power = 60000 \<rparr>"

definition on_20v :: "controller \<Rightarrow> controller" where
  "on_20v c = c\<lparr> regulator := (regulator c)\<lparr> vbus_voltage := 20000 \<rparr> \<rparr>"



text \<open>
  A full four-cell pack on the charger: every precondition of the output holds, the
  battery task reports \<open>requires_charging = 0\<close>, and the regulator measures no charge
  current.
\<close>

definition full_battery :: Battery where
  "full_battery =
     \<lparr> xt60_connected = 1, balance_port_connected = 1, number_of_cells = 4,
       balancing_enabled = 0, requires_charging = 0, cell_over_voltage = 0,
       cell_balance_bitmask = 0 \<rparr>"

definition full_adc :: adc_readings where
  "full_adc = cells_adc 4190 4190 4190 4190 25"

definition full_controller :: "u16 \<Rightarrow> controller" where
  "full_controller n =
     \<lparr> regulator = idle_regulator\<lparr> vbus_voltage := 20000, vbat_voltage := 16760 \<rparr>,
       precharging_state = 0, termination_counter = n, trace = [] \<rparr>"

text \<open>
  The control step of one more pass with the full pack, and \<open>n\<close> such passes. The
  trace is cut before each pass, so that \<open>trace\<close> shows the commands of the last one.
\<close>

definition full_pass :: "controller \<Rightarrow> controller" where
  "full_pass c =
     Control_Charger_Output example_battery_config example_regulator_config exact_fpu
       full_battery {} pd_20v_3a full_adc (c\<lparr> trace := [] \<rparr>)"

definition example_monitor :: monitor where
  "example_monitor =
     \<lparr> cell_connected_bitmask = 15, errors = {},
       battery_state =
         \<lparr> xt60_connected = 1, balance_port_connected = 1, number_of_cells = 4,
           balancing_enabled = 1, requires_charging = 0, cell_over_voltage = 0,
           cell_balance_bitmask = 5 \<rparr>,
       dis_en =
         \<lparr> CELL_1S_DIS_EN = True, CELL_2S_DIS_EN = False,
           CELL_3S_DIS_EN = True, CELL_4S_DIS_EN = False \<rparr> \<rparr>"

text \<open>
  A three-cell pack on the balance port, with the charging lead and the balancing latch
  as given.
\<close>

definition three_cell_battery :: "u8 \<Rightarrow> u8 \<Rightarrow> Battery" where
  "three_cell_battery xt60 enabled =
     \<lparr> xt60_connected = xt60, balance_port_connected = 1, number_of_cells = 3,
       balancing_enabled = enabled, requires_charging = 1, cell_over_voltage = 0,
       cell_balance_bitmask = 0 \<rparr>"

subsection \<open>Vocabulary of the properties\<close>

text \<open>The code that \<^verbatim>\<open>Set_Charge_Current\<close> encodes: the clamped limit in 64 mA steps.\<close>

definition charge_current_code :: "regulator_config \<Rightarrow> u32 \<Rightarrow> u32" where
  "charge_current_code cfg limit =
     (let l = (if limit > MAX_CHARGE_CURRENT_MA cfg then MAX_CHARGE_CURRENT_MA cfg else limit);
          cc0 = (if l \<noteq> 0 then l div 64 else 0)
      in if cc0 > 128 then 128 else cc0)"

text \<open>
  Modelled from the spec: both registers are additive millivolt codes; with the codes
  of \<open>bq25703a_bits\<close> the two bytes of MaxChargeVoltage stand for \<open>256 * MSB + LSB\<close> mV
  and the byte of MinimumSystemVoltage for \<open>256 * byte\<close> mV.
\<close>

definition max_charge_voltage_mv_of :: "u8 \<times> u8 \<Rightarrow> nat" where
  "max_charge_voltage_mv_of bytes = 256 * unat (snd bytes) + unat (fst bytes)"

definition min_system_voltage_mv_of :: "u8 \<Rightarrow> nat" where
  "min_system_voltage_mv_of b = 256 * unat b"

text \<open>
  What the proofs about the charge power need of the \<^verbatim>\<open>float\<close> rounding: it is monotone
  and leaves the integers up to \<open>2 ^ 24\<close> as they are. Round-to-nearest of IEEE 754
  binary32 does both, and so does \<open>exact_fpu\<close>.
\<close>

definition f32_exact_monotone :: "fpu \<Rightarrow> bool" where
  "f32_exact_monotone fp =
     ((\<forall>x y. x \<le> y \<longrightarrow> f32 fp x \<le> f32 fp y)
      \<and> (\<forall>n. n \<le> 2 ^ 24 \<longrightarrow> f32 fp (of_nat n) = of_nat n))"

text \<open>The test of line 494: the preconditions to enable the output.\<close>

definition output_gate :: "battery_config \<Rightarrow> Battery \<Rightarrow> error_state \<Rightarrow> usbpd \<Rightarrow> bool" where
  "output_gate bcfg bs es usb =
     (xt60_connected bs = CONNECTED
      \<and> (if ENABLE_BALANCING bcfg then balance_port_connected bs else CONNECTED) = CONNECTED
      \<and> no_errors es \<and> Get_Input_Power_Ready usb = READY \<and> cell_over_voltage bs = 0)"







text \<open>
  A ladder mask has a gap when a bit below its highest set bit (among bits 1 to 3) is
  clear; it is the prefix of length \<open>k\<close> when exactly its \<open>k\<close> lowest bits (of four) are set.
\<close>

definition ladder_gap :: "u8 \<Rightarrow> bool" where
  "ladder_gap m =
     ((bit m 3 \<and> \<not> (bit m 2 \<and> bit m 1 \<and> bit m 0))
      \<or> (\<not> bit m 3 \<and> bit m 2 \<and> \<not> (bit m 1 \<and> bit m 0))
      \<or> (\<not> bit m 3 \<and> \<not> bit m 2 \<and> bit m 1 \<and> \<not> bit m 0))"

definition ladder_prefix :: "u8 \<Rightarrow> nat \<Rightarrow> bool" where
  "ladder_prefix m k =
     (bit m 0 = (0 < k) \<and> bit m 1 = (1 < k) \<and> bit m 2 = (2 < k) \<and> bit m 3 = (3 < k))"

definition all_discharge_off :: balance_gpio where
  "all_discharge_off =
     \<lparr> CELL_1S_DIS_EN = False, CELL_2S_DIS_EN = False,
       CELL_3S_DIS_EN = False, CELL_4S_DIS_EN = False \<rparr>"

section \<open>Properties\<close>

subsection \<open>Bits of a byte\<close>

lemma and_mask_u8: "((m::u8) AND mask k = mask k) = (\<forall>i<k. i < 8 \<longrightarrow> bit m i)"
proof
  assume h: "m AND mask k = mask k"
  show "\<forall>i<k. i < 8 \<longrightarrow> bit m i"
  proof (intro allI impI)
    fix i assume "i < k" "i < 8"
    then have "bit (mask k :: u8) i" by (simp add: bit_mask_iff)
    then have "bit (m AND mask k) i" using h by simp
    then show "bit m i" by (simp add: bit_and_iff)
  qed
next
  assume h: "\<forall>i<k. i < 8 \<longrightarrow> bit m i"
  show "m AND mask k = mask k"
    by (rule bit_word_eqI) (use h in \<open>auto simp add: bit_and_iff bit_mask_iff\<close>)
qed

lemma and_7_u8: "((m::u8) AND 7 = 7) = (bit m 0 \<and> bit m 1 \<and> bit m 2)"
proof -
  have "(\<forall>i<3::nat. i < 8 \<longrightarrow> bit m i) = (bit m 0 \<and> bit m 1 \<and> bit m 2)"
    by (auto simp add: less_Suc_eq numeral_3_eq_3 numeral_2_eq_2)
  then show ?thesis using and_mask_u8[of m 3] by (simp add: mask_eq_exp_minus_1)
qed

lemma and_3_u8: "((m::u8) AND 3 = 3) = (bit m 0 \<and> bit m 1)"
proof -
  have "(\<forall>i<2::nat. i < 8 \<longrightarrow> bit m i) = (bit m 0 \<and> bit m 1)"
    by (auto simp add: less_Suc_eq numeral_2_eq_2)
  then show ?thesis using and_mask_u8[of m 2] by (simp add: mask_eq_exp_minus_1)
qed

lemma and_1_u8: "((m::u8) AND 1 = 1) = bit m 0"
  using and_mask_u8[of m 1] by (simp add: mask_eq_exp_minus_1)

lemma test_bit_u8: "k < 8 \<Longrightarrow> ((m::u8) AND push_bit k 1 \<noteq> 0) = bit m k"
  using and_exp_eq_0_iff_not_bit[of m k] by simp

lemma cell_count_bits:
  "cell_count m es =
     (if bit m 3 then
        (if bit m 0 \<and> bit m 1 \<and> bit m 2 then (4, es - {CELL_CONNECTION_ERROR})
         else (0, insert CELL_CONNECTION_ERROR es))
      else if bit m 2 then
        (if bit m 0 \<and> bit m 1 then (3, es - {CELL_CONNECTION_ERROR})
         else (0, insert CELL_CONNECTION_ERROR es))
      else if bit m 1 then
        (if bit m 0 then (2, es - {CELL_CONNECTION_ERROR})
         else (0, insert CELL_CONNECTION_ERROR es))
      else (0, es - {CELL_CONNECTION_ERROR}))"
  unfolding cell_count_def THREE_S_BITMASK_def TWO_S_BITMASK_def ONE_S_BITMASK_def
    and_7_u8 and_3_u8 and_1_u8 Set_Error_State_def Clear_Error_State_def
  by (simp only: test_bit_u8 [of 3] test_bit_u8 [of 2] test_bit_u8 [of 1])


lemma set_bit_u8: "k < 8 \<Longrightarrow> i < 8 \<Longrightarrow> bit ((x::u8) OR 2 ^ k) i = (bit x i \<or> i = k)"
  by (auto simp add: bit_or_iff bit_exp_iff)

lemma clear_bit_u8: "k < 8 \<Longrightarrow> i < 8 \<Longrightarrow> bit ((x::u8) AND NOT (2 ^ k)) i = (bit x i \<and> i \<noteq> k)"
  by (auto simp add: bit_and_iff bit_not_iff bit_exp_iff)

lemma ladder_set_clear:
  fixes x :: u8
  assumes "i < 8"
  shows "bit (x OR 8) i = (bit x i \<or> i = 3)"
    and "bit (x OR 4) i = (bit x i \<or> i = 2)"
    and "bit (x OR 2) i = (bit x i \<or> i = 1)"
    and "bit (x OR 1) i = (bit x i \<or> i = 0)"
    and "bit (x AND - 9) i = (bit x i \<and> i \<noteq> 3)"
    and "bit (x AND - 5) i = (bit x i \<and> i \<noteq> 2)"
    and "bit (x AND - 3) i = (bit x i \<and> i \<noteq> 1)"
    and "bit (x AND - 2) i = (bit x i \<and> i \<noteq> 0)"
  using assms set_bit_u8 [of 3 i x] set_bit_u8 [of 2 i x] set_bit_u8 [of 1 i x]
    set_bit_u8 [of 0 i x] clear_bit_u8 [of 3 i x] clear_bit_u8 [of 2 i x]
    clear_bit_u8 [of 1 i x] clear_bit_u8 [of 0 i x]
  by simp_all

lemma ladder_probe_bits:
  "bit (ladder_probe cfg adc m0) 3 =
     (Get_Four_S_Voltage adc > VOLTAGE_CONNECTED_THRESHOLD cfg
      \<and> Get_Cell_Voltage adc 3 > VOLTAGE_CONNECTED_THRESHOLD cfg)"
  "bit (ladder_probe cfg adc m0) 2 =
     (Get_Three_S_Voltage adc > VOLTAGE_CONNECTED_THRESHOLD cfg
      \<and> Get_Cell_Voltage adc 2 > VOLTAGE_CONNECTED_THRESHOLD cfg)"
  "bit (ladder_probe cfg adc m0) 1 =
     (Get_Two_S_Voltage adc > VOLTAGE_CONNECTED_THRESHOLD cfg
      \<and> Get_Cell_Voltage adc 1 > VOLTAGE_CONNECTED_THRESHOLD cfg)"
  "bit (ladder_probe cfg adc m0) 0 = (Get_Cell_Voltage adc 0 > VOLTAGE_CONNECTED_THRESHOLD cfg)"
  unfolding ladder_probe_def Let_def
  by (simp_all add: ladder_set_clear)

lemma ladder_probe_high_bits:
  "4 \<le> i \<Longrightarrow> i < 8 \<Longrightarrow> bit (ladder_probe cfg adc m0) i = bit m0 i"
  unfolding ladder_probe_def Let_def
  by (simp add: ladder_set_clear)

subsection \<open>Cell count from the ladder (C2)\<close>

text \<open>
  C2. Whatever the readings, the previous mask, the registry and the battery record:
  the mask that \<^verbatim>\<open>Balance_Connection_State\<close> leaves is the probed ladder; if it has a gap
  under its highest set bit (bit 3, 2 or 1), \<open>number_of_cells\<close> is 0 and
  CELL\_CONNECTION\_ERROR is raised; if it is the contiguous prefix of length 4, 3 or 2,
  that count is accepted and CELL\_CONNECTION\_ERROR is cleared.
\<close>

theorem Balance_Connection_State_cell_count:
  "case Balance_Connection_State cfg adc (m0, es, bs) of
     (m, es', bs') \<Rightarrow>
       m = ladder_probe cfg adc m0
       \<and> (ladder_gap m \<longrightarrow>
            number_of_cells bs' = 0 \<and> has_error CELL_CONNECTION_ERROR es')
       \<and> (ladder_prefix m 4 \<longrightarrow>
            number_of_cells bs' = 4 \<and> \<not> has_error CELL_CONNECTION_ERROR es')
       \<and> (ladder_prefix m 3 \<longrightarrow>
            number_of_cells bs' = 3 \<and> \<not> has_error CELL_CONNECTION_ERROR es')
       \<and> (ladder_prefix m 2 \<longrightarrow>
            number_of_cells bs' = 2 \<and> \<not> has_error CELL_CONNECTION_ERROR es')"
  unfolding Balance_Connection_State_def Let_def cell_count_bits ladder_gap_def
    ladder_prefix_def has_error_def
  by simp

text \<open>
  The spec's scenario S4 (taps 3.7, 0, 3.7, 3.7 V: mask 1101, a gap), and packs of four,
  three and two cells.
\<close>

theorem Balance_Connection_State_cell_count_witness:
  "(case Balance_Connection_State example_battery_config (cells_adc 3700 0 3700 3700 25)
           (0, {}, idle_battery) of
      (m, es', bs') \<Rightarrow>
        m = 13 \<and> ladder_gap m \<and> number_of_cells bs' = 0 \<and> es' = {CELL_CONNECTION_ERROR})
   \<and> (case Balance_Connection_State example_battery_config (cells_adc 3700 3700 3700 3700 25)
           (0, {CELL_CONNECTION_ERROR}, idle_battery) of
      (m, es', bs') \<Rightarrow>
        m = 15 \<and> ladder_prefix m 4 \<and> number_of_cells bs' = 4 \<and> es' = {})
   \<and> (case Balance_Connection_State example_battery_config (cells_adc 3700 3700 3700 0 25)
           (0, {CELL_CONNECTION_ERROR}, idle_battery) of
      (m, es', bs') \<Rightarrow>
        m = 7 \<and> ladder_prefix m 3 \<and> number_of_cells bs' = 3 \<and> es' = {})
   \<and> (case Balance_Connection_State example_battery_config (cells_adc 3700 3700 0 0 25)
           (0, {CELL_CONNECTION_ERROR}, idle_battery) of
      (m, es', bs') \<Rightarrow>
        m = 3 \<and> ladder_prefix m 2 \<and> number_of_cells bs' = 2 \<and> es' = {})"
  using
    Balance_Connection_State_cell_count [of example_battery_config
      "cells_adc 3700 0 3700 3700 25" 0 "{}" idle_battery]
    Balance_Connection_State_cell_count [of example_battery_config
      "cells_adc 3700 3700 3700 3700 25" 0 "{CELL_CONNECTION_ERROR}" idle_battery]
    Balance_Connection_State_cell_count [of example_battery_config
      "cells_adc 3700 3700 3700 0 25" 0 "{CELL_CONNECTION_ERROR}" idle_battery]
    Balance_Connection_State_cell_count [of example_battery_config
      "cells_adc 3700 3700 0 0 25" 0 "{CELL_CONNECTION_ERROR}" idle_battery]
  by (simp add: Balance_Connection_State_def ladder_probe_def cell_count_def
      example_battery_config_def cells_adc_def ladder_gap_def ladder_prefix_def
      THREE_S_BITMASK_def TWO_S_BITMASK_def ONE_S_BITMASK_def
      Set_Error_State_def Clear_Error_State_def has_error_def idle_battery_def)

subsection \<open>No balancing while the regulator charges (C9)\<close>

text \<open>
  C9. In a pass of the battery task during which \<^verbatim>\<open>Get_Regulator_Charging_State()\<close>
  is not zero, \<^verbatim>\<open>Balance_Battery\<close> is not called: \<open>balancing_enabled\<close>,
  \<open>cell_balance_bitmask\<close> and the four discharge outputs are as they were.
\<close>

theorem Battery_Connection_State_skips_balancing_while_charging:
  "charging_state \<noteq> 0 \<Longrightarrow>
     balancing_enabled (battery_state (Battery_Connection_State cfg fp adc charging_state mon))
       = balancing_enabled (battery_state mon)
     \<and> cell_balance_bitmask (battery_state (Battery_Connection_State cfg fp adc charging_state mon))
       = cell_balance_bitmask (battery_state mon)
     \<and> dis_en (Battery_Connection_State cfg fp adc charging_state mon) = dis_en mon"
  unfolding Battery_Connection_State_def Balance_Connection_State_def
    Cell_Voltage_Safety_Check_def Let_def
  by (simp add: split_beta)

text \<open>
  A pass with the second cell 200 mV above the others, which would start a discharge,
  while the regulator charges.
\<close>

theorem Battery_Connection_State_skips_balancing_while_charging_witness:
  "(1 :: u8) \<noteq> 0
   \<and> balancing_enabled (battery_state
        (Battery_Connection_State example_battery_config exact_fpu
           (cells_adc 3700 3900 3700 3700 25) 1 example_monitor)) = 1
   \<and> cell_balance_bitmask (battery_state
        (Battery_Connection_State example_battery_config exact_fpu
           (cells_adc 3700 3900 3700 3700 25) 1 example_monitor)) = 5
   \<and> dis_en (Battery_Connection_State example_battery_config exact_fpu
        (cells_adc 3700 3900 3700 3700 25) 1 example_monitor) = dis_en example_monitor"
  using Battery_Connection_State_skips_balancing_while_charging
    [of 1 example_battery_config exact_fpu "cells_adc 3700 3900 3700 3700 25" example_monitor]
  by (simp add: example_monitor_def)

subsection \<open>Balancing gate closed (C10)\<close>





subsection \<open>Commands and their traces\<close>

lemma trace_emit [simp]: "trace (emit e c) = trace c @ [e]"
  by (simp add: emit_def)
lemma regulator_emit [simp]: "regulator (emit e c) = regulator c"
  by (simp add: emit_def)
lemma termination_counter_emit [simp]: "termination_counter (emit e c) = termination_counter c"
  by (simp add: emit_def)
lemma precharging_state_emit [simp]: "precharging_state (emit e c) = precharging_state c"
  by (simp add: emit_def)

lemma Regulator_HI_Z_simps [simp]:
  "trace (Regulator_HI_Z h c) =
     trace c @ [HAL_GPIO_WritePin ILIM_HIZ (h \<noteq> 1), HAL_GPIO_WritePin FAN_ENn (h = 1)]"
  "regulator (Regulator_HI_Z h c) = regulator c"
  "termination_counter (Regulator_HI_Z h c) = termination_counter c"
  "precharging_state (Regulator_HI_Z h c) = precharging_state c"
  by (simp_all add: Regulator_HI_Z_def)

lemma Set_Charge_Voltage_simps [simp]:
  "trace (Set_Charge_Voltage cfg n c) =
     trace c @ [I2C_Write_Register MINIMUM_SYSTEM_VOLTAGE_ADDR (snd (snd (charge_voltage_bytes cfg n))),
                I2C_Write_Two_Byte_Register MAX_CHARGE_VOLTAGE_ADDR
                  (fst (snd (charge_voltage_bytes cfg n))) (fst (charge_voltage_bytes cfg n))]"
  "regulator (Set_Charge_Voltage cfg n c) = regulator c"
  "termination_counter (Set_Charge_Voltage cfg n c) = termination_counter c"
  "precharging_state (Set_Charge_Voltage cfg n c) = precharging_state c"
  by (simp_all add: Set_Charge_Voltage_def split_beta)

lemma Set_Charge_Current_simps [simp]:
  "trace (Set_Charge_Current cfg x c) =
     trace c @ [I2C_Write_Two_Byte_Register CHARGE_CURRENT_ADDR
                  (ucast (push_bit 6 (charge_current_code cfg x)))
                  (ucast (drop_bit 2 (charge_current_code cfg x)))]"
  "regulator (Set_Charge_Current cfg x c) =
     (regulator c)\<lparr> max_charge_current_ma :=
        (if x > MAX_CHARGE_CURRENT_MA cfg then MAX_CHARGE_CURRENT_MA cfg else x) \<rparr>"
  "termination_counter (Set_Charge_Current cfg x c) = termination_counter c"
  "precharging_state (Set_Charge_Current cfg x c) = precharging_state c"
  by (simp_all add: Set_Charge_Current_def charge_current_code_def Let_def)

lemma charge_current_code_0 [simp]: "charge_current_code cfg 0 = 0"
  by (simp add: charge_current_code_def)

lemma last_command_fold:
  "fold (\<lambda>e r. case f e of None \<Rightarrow> r | Some v \<Rightarrow> Some v) evs r =
     (case last_command f evs of None \<Rightarrow> r | Some v \<Rightarrow> Some v)"
  unfolding last_command_def
proof (induction evs arbitrary: r)
  case Nil
  show ?case by simp
next
  case (Cons e evs)
  show ?case
    using Cons.IH [of "case f e of None \<Rightarrow> r | Some v \<Rightarrow> Some v"]
      Cons.IH [of "case f e of None \<Rightarrow> None | Some v \<Rightarrow> Some v"]
    by (simp split: option.splits)
qed

lemma last_command_Nil [simp]: "last_command f [] = None"
  by (simp add: last_command_def)

lemma last_command_append [simp]:
  "last_command f (xs @ ys) =
     (case last_command f ys of None \<Rightarrow> last_command f xs | Some v \<Rightarrow> Some v)"
proof -
  have "last_command f (xs @ ys) =
          fold (\<lambda>e r. case f e of None \<Rightarrow> r | Some v \<Rightarrow> Some v) ys (last_command f xs)"
    by (simp add: last_command_def)
  then show ?thesis by (simp only: last_command_fold)
qed

lemma last_command_Cons [simp]:
  "last_command f (e # es) = (case last_command f es of None \<Rightarrow> f e | Some v \<Rightarrow> Some v)"
  using last_command_append [of f "[e]" es]
  by (simp add: last_command_def split: option.splits)

lemma power_scalar_range: "0 \<le> power_scalar fp t \<and> power_scalar fp t \<le> 1"
  by (simp add: power_scalar_def Let_def)

lemma unat_f2u_le:
  assumes "0 \<le> x" and "x \<le> of_nat n" and "n < 2 ^ 32"
  shows "unat (f2u fp x) \<le> n"
proof -
  have n32: "int n < 2 ^ 32"
  proof -
    have "int n < int (2 ^ 32)" using assms(3) by (simp only: of_nat_less_iff)
    then show ?thesis by simp
  qed
  have fl0: "0 \<le> \<lfloor>x\<rfloor>" using assms(1) by simp
  have fln: "\<lfloor>x\<rfloor> \<le> int n" using assms(2) by (simp add: floor_le_iff)
  have "x < of_int (\<lfloor>x\<rfloor> + 1)" by linarith
  also have "\<dots> \<le> of_int (2 ^ 32)"
  proof -
    have "\<lfloor>x\<rfloor> + 1 \<le> 2 ^ 32" using fln n32 by linarith
    then show ?thesis by (simp only: of_int_le_iff)
  qed
  finally have lt: "x < 2 ^ 32" by simp
  have "f2u fp x = word_of_int \<lfloor>x\<rfloor>" using assms(1) lt by (simp add: f2u_def)
  moreover have "unat (word_of_int \<lfloor>x\<rfloor> :: u32) = nat \<lfloor>x\<rfloor>"
  proof -
    have "\<lfloor>x\<rfloor> < 2 ^ 32" using fln n32 by linarith
    then show ?thesis using fl0 by (simp add: unat_eq_nat_uint uint_word_of_int take_bit_eq_mod)
  qed
  ultimately show ?thesis using fln fl0 by simp
qed

lemma scaled_power_le:
  assumes ok: "f32_exact_monotone fp" and p: "unat p \<le> 2 ^ 24"
    and s: "0 \<le> s" "s \<le> 1"
  shows "unat (f2u fp (f32 fp (u2f fp p * s))) \<le> unat p"
proof -
  define P :: rat where "P = of_nat (unat p)"
  have mono: "\<And>x y. x \<le> y \<Longrightarrow> f32 fp x \<le> f32 fp y"
    and exact: "\<And>n. n \<le> 2 ^ 24 \<Longrightarrow> f32 fp (of_nat n) = of_nat n"
    using ok by (auto simp add: f32_exact_monotone_def)
  have P0: "0 \<le> P" by (simp only: P_def of_nat_0_le_iff)
  have fP: "f32 fp P = P" unfolding P_def by (rule exact [OF p])
  have up: "u2f fp p = P" using fP by (simp add: u2f_def P_def)
  have z: "f32 fp 0 = 0" using exact [of 0] by simp
  have "0 \<le> P * s" using s P0 by simp
  then have lo: "0 \<le> f32 fp (u2f fp p * s)" using mono [of 0 "P * s"] z up by simp
  have "P * s \<le> P"
    using s P0 by (simp add: mult_left_le)
  then have "f32 fp (u2f fp p * s) \<le> P"
    using mono [of "P * s" P] fP up by simp
  then have hi: "f32 fp (u2f fp p * s) \<le> of_nat (unat p)" by (simp only: P_def)
  have "unat p < 2 ^ 32" using p by simp
  then show ?thesis using unat_f2u_le [OF lo hi] by simp
qed

lemma Calculate_Max_Charge_Power_le:
  assumes ok: "f32_exact_monotone fp"
    and eff: "0 \<le> ASSUME_EFFICIENCY cfg" "ASSUME_EFFICIENCY cfg \<le> 1"
    and mx: "unat (MAX_CHARGING_POWER cfg) \<le> 2 ^ 24"
  shows "Calculate_Max_Charge_Power cfg fp usb adc reg \<le> MAX_CHARGING_POWER cfg"
proof -
  define p0 where "p0 = f2u fp (f32 fp (f32 fp (u2f fp (vbus_voltage reg div REG_ADC_MULTIPLIER cfg)
                                        * u2f fp (Get_Max_Input_Current usb))
                               * ASSUME_EFFICIENCY cfg))"
  define p1 where "p1 = (if p0 > MAX_CHARGING_POWER cfg then MAX_CHARGING_POWER cfg else p0)"
  define p2 where "p2 = (if p1 > Get_Max_Input_Power usb
                then f2u fp (f32 fp (u2f fp (Get_Max_Input_Power usb) * ASSUME_EFFICIENCY cfg))
                else p1)"
  have r: "Calculate_Max_Charge_Power cfg fp usb adc reg =
      (if Get_MCU_Temperature adc > TEMP_THROTTLE_THRESH_C cfg
         then f2u fp (f32 fp (u2f fp p2 * power_scalar fp (Get_MCU_Temperature adc)))
         else p2)"
    by (simp add: Calculate_Max_Charge_Power_def p0_def p1_def p2_def Let_def)
  have p1: "unat p1 \<le> unat (MAX_CHARGING_POWER cfg)"
    by (simp add: p1_def word_less_nat_alt)
  have p2: "unat p2 \<le> unat (MAX_CHARGING_POWER cfg)"
  proof (cases "p1 > Get_Max_Input_Power usb")
    case True
    then have lt: "unat (Get_Max_Input_Power usb) < unat p1" by (simp add: word_less_nat_alt)
    then have "unat (Get_Max_Input_Power usb) \<le> 2 ^ 24" using p1 mx by linarith
    from scaled_power_le [OF ok this eff]
    show ?thesis using True lt p1 by (simp add: p2_def)
  next
    case False
    then show ?thesis using p1 by (simp add: p2_def)
  qed
  have "unat (Calculate_Max_Charge_Power cfg fp usb adc reg) \<le> unat p2"
  proof (cases "Get_MCU_Temperature adc > TEMP_THROTTLE_THRESH_C cfg")
    case True
    have "unat p2 \<le> 2 ^ 24" using p2 mx by linarith
    from scaled_power_le [OF ok this] power_scalar_range [of fp "Get_MCU_Temperature adc"]
    show ?thesis using True by (simp add: r)
  next
    case False
    then show ?thesis by (simp add: r)
  qed
  then show ?thesis using p2 by (simp add: word_le_nat_alt)
qed

lemma exact_fpu_ok: "f32_exact_monotone exact_fpu"
  by (simp add: f32_exact_monotone_def exact_fpu_def)


lemma charge_current_code_le_128: "unat (charge_current_code cfg x) \<le> 128"
  by (simp add: charge_current_code_def Let_def word_less_nat_alt)

lemma charge_current_code_le_limit:
  "64 * unat (charge_current_code cfg x)
     \<le> unat (if x > MAX_CHARGE_CURRENT_MA cfg then MAX_CHARGE_CURRENT_MA cfg else x)"
proof -
  have "64 * unat ((l :: u32) div 64) \<le> unat l" for l
    by (simp add: unat_div)
  moreover have "64 * unat (128 :: u32) \<le> unat l" if "128 < (l :: u32) div 64" for l
  proof -
    have "128 < unat l div 64" using that by (simp add: word_less_nat_alt unat_div)
    then show ?thesis by simp
  qed
  ultimately show ?thesis
    by (simp add: charge_current_code_def Let_def)
qed

lemma shl6_mod: "(((n::nat) * 64) mod 256) div 64 = n mod 4"
proof -
  have "(n * 64) mod (4 * 64) = (n mod 4) * 64"
    by (rule mult_mod_left [symmetric])
  then show ?thesis by simp
qed

lemma charge_current_bytes:
  assumes "unat (k :: u32) \<le> 128"
  shows "charge_current_ma_of (ucast (push_bit 6 k) :: u8, ucast (drop_bit 2 k) :: u8) = 64 * unat k"
proof -
  have "unat (ucast (drop_bit 2 k) :: u8) = (unat k div 4) mod 256"
    by (simp add: unsigned_ucast_eq unat_drop_bit_eq drop_bit_eq_div take_bit_eq_mod unat_div)
  moreover have "unat k div 4 < 256" using assms by linarith
  ultimately have a: "unat (ucast (drop_bit 2 k) :: u8) = unat k div 4"
    by simp
  have "unat (k * 64) = (unat k * unat (64 :: u32)) mod 2 ^ LENGTH(32)"
    by (rule unat_word_ariths(2))
  then have "unat (push_bit 6 k) = (unat k * 64) mod 2 ^ 32"
    by (simp add: push_bit_eq_mult)
  moreover have "unat (ucast (push_bit 6 k) :: u8) = unat (push_bit 6 k) mod 256"
    by (simp only: unsigned_ucast_eq take_bit_eq_mod) simp
  ultimately have "unat (ucast (push_bit 6 k) :: u8) = ((unat k * 64) mod 2 ^ 32) mod 256"
    by (simp only:)
  moreover have "unat k * 64 < 2 ^ 32" using assms by simp
  ultimately have b: "unat (ucast (push_bit 6 k) :: u8) = (unat k * 64) mod 256"
    by simp
  have "charge_current_ma_of (ucast (push_bit 6 k) :: u8, ucast (drop_bit 2 k) :: u8)
          = 64 * (4 * (unat k div 4) + ((unat k * 64) mod 256) div 64)"
    by (simp only: charge_current_ma_of_def fst_conv snd_conv a b)
  also have "\<dots> = 64 * (4 * (unat k div 4) + unat k mod 4)"
    by (simp only: shl6_mod)
  also have "\<dots> = 64 * unat k"
    by (simp only: mult_div_mod_eq)
  finally show ?thesis .
qed

lemmas command_defs =
  hi_z_command_def charge_current_command_def charge_voltage_command_def
  min_system_voltage_command_def

lemma Control_Charger_Output_closed:
  assumes "\<not> output_gate bcfg bs es usb"
  shows "Control_Charger_Output bcfg cfg fp bs es usb adc c
           = Set_Charge_Current cfg 0 (Set_Charge_Voltage cfg 0 (Regulator_HI_Z 1 c))"
  unfolding Control_Charger_Output_def Let_def
  using assms [unfolded output_gate_def]
  by (rule if_not_P)

lemma clamp_le: "(if x > (m :: u32) then m else x) \<le> m"
  by (simp add: not_less)

lemma charge_current_encoded_le:
  "charge_current_ma_of (ucast (push_bit 6 (charge_current_code cfg x)),
                         ucast (drop_bit 2 (charge_current_code cfg x)))
     \<le> unat (if x > MAX_CHARGE_CURRENT_MA cfg then MAX_CHARGE_CURRENT_MA cfg else x)"
  using charge_current_code_le_limit [of cfg x]
    charge_current_bytes [OF charge_current_code_le_128 [of cfg x]]
  by (simp only:)

lemma Control_Charger_Output_current:
  "\<exists>x. max_charge_current_ma (regulator (Control_Charger_Output bcfg cfg fp bs es usb adc c))
          = (if x > MAX_CHARGE_CURRENT_MA cfg then MAX_CHARGE_CURRENT_MA cfg else x)
      \<and> charge_current_command (trace (Control_Charger_Output bcfg cfg fp bs es usb adc c))
          = Some (ucast (push_bit 6 (charge_current_code cfg x)),
                  ucast (drop_bit 2 (charge_current_code cfg x)))"
proof (cases "output_gate bcfg bs es usb")
  case False
  show ?thesis
    unfolding Control_Charger_Output_closed [OF False]
    by (rule exI [of _ 0]) (simp add: command_defs)
next
  case True
  show ?thesis
    using True [unfolded output_gate_def]
    by (intro exI [of _ "charging_current_ma cfg fp
      (Calculate_Max_Charge_Power cfg fp usb adc
         (regulator (Set_Charge_Voltage cfg
            (if ENABLE_BALANCING bcfg then number_of_cells bs else NUM_SERIES bcfg) c)))
      (Get_Battery_Voltage adc)"])
      (simp add: Control_Charger_Output_def Let_def command_defs)
qed

subsection \<open>The charge-voltage table (C8)\<close>

text \<open>
  C8, as amended. With \<^verbatim>\<open>FIXED_VOLTAGE_CHARGING\<close> off, \<^verbatim>\<open>Set_Charge_Voltage\<close> writes
  MinimumSystemVoltage and then MaxChargeVoltage (LSB, MSB) and nothing else: for 0 cells
  the 1024 mV code \<open>MIN_VOLT_ADD_1024_MV\<close> and the bytes 0, 0 (only MaxChargeVoltage is
  zeroed); for 1 to 4 cells the codes of the table in the source.
\<close>

theorem Set_Charge_Voltage_table:
  "\<not> FIXED_VOLTAGE_CHARGING cfg \<Longrightarrow>
     (let b = vbits cfg; c' = Set_Charge_Voltage cfg n c in
        regulator c' = regulator c
        \<and> (n = 0 \<longrightarrow>
             trace c' = trace c @
               [I2C_Write_Register MINIMUM_SYSTEM_VOLTAGE_ADDR (MIN_VOLT_ADD_1024_MV b),
                I2C_Write_Two_Byte_Register MAX_CHARGE_VOLTAGE_ADDR 0 0])
        \<and> (n = 1 \<longrightarrow>
             trace c' = trace c @
               [I2C_Write_Register MINIMUM_SYSTEM_VOLTAGE_ADDR
                  (MIN_VOLT_ADD_2048_MV b OR MIN_VOLT_ADD_512_MV b OR MIN_VOLT_ADD_256_MV b),
                I2C_Write_Two_Byte_Register MAX_CHARGE_VOLTAGE_ADDR
                  (MAX_VOLT_ADD_64_MV b OR MAX_VOLT_ADD_32_MV b)
                  (MAX_VOLT_ADD_4096_MV b)])
        \<and> (n = 2 \<longrightarrow>
             trace c' = trace c @
               [I2C_Write_Register MINIMUM_SYSTEM_VOLTAGE_ADDR
                  (MIN_VOLT_ADD_4096_MV b OR MIN_VOLT_ADD_1024_MV b OR MIN_VOLT_ADD_512_MV b),
                I2C_Write_Two_Byte_Register MAX_CHARGE_VOLTAGE_ADDR
                  (MAX_VOLT_ADD_128_MV b OR MAX_VOLT_ADD_64_MV b OR MAX_VOLT_ADD_16_MV b)
                  (MAX_VOLT_ADD_8192_MV b)])
        \<and> (n = 3 \<longrightarrow>
             trace c' = trace c @
               [I2C_Write_Register MINIMUM_SYSTEM_VOLTAGE_ADDR
                  (MIN_VOLT_ADD_8192_MV b OR MIN_VOLT_ADD_256_MV b),
                I2C_Write_Two_Byte_Register MAX_CHARGE_VOLTAGE_ADDR
                  (MAX_VOLT_ADD_32_MV b OR MAX_VOLT_ADD_16_MV b)
                  (MAX_VOLT_ADD_8192_MV b OR MAX_VOLT_ADD_4096_MV b OR MAX_VOLT_ADD_256_MV b)])
        \<and> (n = 4 \<longrightarrow>
             trace c' = trace c @
               [I2C_Write_Register MINIMUM_SYSTEM_VOLTAGE_ADDR
                  (MIN_VOLT_ADD_8192_MV b OR MIN_VOLT_ADD_2048_MV b OR MIN_VOLT_ADD_1024_MV b),
                I2C_Write_Two_Byte_Register MAX_CHARGE_VOLTAGE_ADDR
                  (MAX_VOLT_ADD_128_MV b OR MAX_VOLT_ADD_32_MV b)
                  (MAX_VOLT_ADD_16384_MV b OR MAX_VOLT_ADD_256_MV b)]))"
  by (simp add: Let_def charge_voltage_bytes_def)

text \<open>
  With the BQ25703A's codes the table gives 4.192, 8.400, 12.592 and 16.800 V, the
  targets of the spec.
\<close>

theorem Set_Charge_Voltage_table_witness:
  "\<not> FIXED_VOLTAGE_CHARGING example_regulator_config
   \<and> trace (Set_Charge_Voltage example_regulator_config 0 boot_controller) =
       [I2C_Write_Register MINIMUM_SYSTEM_VOLTAGE_ADDR 0x04,
        I2C_Write_Two_Byte_Register MAX_CHARGE_VOLTAGE_ADDR 0 0]
   \<and> trace (Set_Charge_Voltage example_regulator_config 1 boot_controller) =
       [I2C_Write_Register MINIMUM_SYSTEM_VOLTAGE_ADDR 0x0B,
        I2C_Write_Two_Byte_Register MAX_CHARGE_VOLTAGE_ADDR 0x60 0x10]
   \<and> trace (Set_Charge_Voltage example_regulator_config 2 boot_controller) =
       [I2C_Write_Register MINIMUM_SYSTEM_VOLTAGE_ADDR 0x16,
        I2C_Write_Two_Byte_Register MAX_CHARGE_VOLTAGE_ADDR 0xD0 0x20]
   \<and> trace (Set_Charge_Voltage example_regulator_config 3 boot_controller) =
       [I2C_Write_Register MINIMUM_SYSTEM_VOLTAGE_ADDR 0x21,
        I2C_Write_Two_Byte_Register MAX_CHARGE_VOLTAGE_ADDR 0x30 0x31]
   \<and> trace (Set_Charge_Voltage example_regulator_config 4 boot_controller) =
       [I2C_Write_Register MINIMUM_SYSTEM_VOLTAGE_ADDR 0x2C,
        I2C_Write_Two_Byte_Register MAX_CHARGE_VOLTAGE_ADDR 0xA0 0x41]
   \<and> map max_charge_voltage_mv_of [(0x60, 0x10), (0xD0, 0x20), (0x30, 0x31), (0xA0, 0x41)]
       = [4192, 8400, 12592, 16800]"
  using
    Set_Charge_Voltage_table [of example_regulator_config 0 boot_controller]
    Set_Charge_Voltage_table [of example_regulator_config 1 boot_controller]
    Set_Charge_Voltage_table [of example_regulator_config 2 boot_controller]
    Set_Charge_Voltage_table [of example_regulator_config 3 boot_controller]
    Set_Charge_Voltage_table [of example_regulator_config 4 boot_controller]
  by (simp add: example_regulator_config_def bq25703a_bits_def boot_controller_def
      max_charge_voltage_mv_of_def charge_voltage_bytes_def)

text \<open>
  The claim as stated fails: for 0 cells the byte written to MinimumSystemVoltage is the
  1024 mV code, not zero.
\<close>

theorem Set_Charge_Voltage_zero_cells_counterexample:
  "min_system_voltage_command
     (trace (Set_Charge_Voltage example_regulator_config 0 boot_controller)) = Some 4
   \<and> min_system_voltage_command
       (trace (Set_Charge_Voltage example_regulator_config 0 boot_controller)) \<noteq> Some 0
   \<and> min_system_voltage_mv_of 4 = 1024"
  by (simp add: charge_voltage_bytes_def example_regulator_config_def bq25703a_bits_def
      boot_controller_def min_system_voltage_command_def min_system_voltage_mv_of_def)

subsection \<open>Ceilings on current and power (C5)\<close>

text \<open>
  C5. \<^verbatim>\<open>Set_Charge_Current\<close> stores the input clamped to \<open>MAX_CHARGE_CURRENT_MA\<close>, and
  the current that the two bytes it writes stand for is no more than the stored value;
  after every \<^verbatim>\<open>Control_Charger_Output\<close>, whichever branch it took, the stored and the
  commanded current are within that ceiling. The power that
  \<^verbatim>\<open>Calculate_Max_Charge_Power\<close> returns is no more than \<open>MAX_CHARGING_POWER\<close>, for an
  efficiency factor in [0, 1], a power ceiling of at most \<open>2 ^ 24\<close> mW and a \<^verbatim>\<open>float\<close>
  rounding that is monotone and exact on the integers up to \<open>2 ^ 24\<close>.
\<close>

theorem charge_current_and_power_ceilings:
  "(let c' = Set_Charge_Current cfg x c in
      max_charge_current_ma (regulator c')
        = (if x > MAX_CHARGE_CURRENT_MA cfg then MAX_CHARGE_CURRENT_MA cfg else x)
      \<and> max_charge_current_ma (regulator c') \<le> MAX_CHARGE_CURRENT_MA cfg
      \<and> (\<exists>bytes. charge_current_command (trace c') = Some bytes
            \<and> charge_current_ma_of bytes \<le> unat (max_charge_current_ma (regulator c'))))
   \<and> (let c' = Control_Charger_Output bcfg cfg fp bs es usb adc c in
        max_charge_current_ma (regulator c') \<le> MAX_CHARGE_CURRENT_MA cfg
        \<and> (\<exists>bytes. charge_current_command (trace c') = Some bytes
              \<and> charge_current_ma_of bytes \<le> unat (max_charge_current_ma (regulator c'))))
   \<and> (f32_exact_monotone fp \<and> 0 \<le> ASSUME_EFFICIENCY cfg \<and> ASSUME_EFFICIENCY cfg \<le> 1
        \<and> unat (MAX_CHARGING_POWER cfg) \<le> 2 ^ 24 \<longrightarrow>
      Calculate_Max_Charge_Power cfg fp usb adc reg \<le> MAX_CHARGING_POWER cfg)"
proof (intro conjI)
  show "let c' = Set_Charge_Current cfg x c in
      max_charge_current_ma (regulator c')
        = (if x > MAX_CHARGE_CURRENT_MA cfg then MAX_CHARGE_CURRENT_MA cfg else x)
      \<and> max_charge_current_ma (regulator c') \<le> MAX_CHARGE_CURRENT_MA cfg
      \<and> (\<exists>bytes. charge_current_command (trace c') = Some bytes
            \<and> charge_current_ma_of bytes \<le> unat (max_charge_current_ma (regulator c')))"
    using charge_current_encoded_le [of cfg x] clamp_le [of "MAX_CHARGE_CURRENT_MA cfg" x]
    by (auto simp add: Let_def command_defs not_less split: if_splits)
next
  obtain y where y:
    "max_charge_current_ma (regulator (Control_Charger_Output bcfg cfg fp bs es usb adc c))
          = (if y > MAX_CHARGE_CURRENT_MA cfg then MAX_CHARGE_CURRENT_MA cfg else y)"
    "charge_current_command (trace (Control_Charger_Output bcfg cfg fp bs es usb adc c))
          = Some (ucast (push_bit 6 (charge_current_code cfg y)),
                  ucast (drop_bit 2 (charge_current_code cfg y)))"
    using Control_Charger_Output_current [of bcfg cfg fp bs es usb adc c] by blast
  show "let c' = Control_Charger_Output bcfg cfg fp bs es usb adc c in
        max_charge_current_ma (regulator c') \<le> MAX_CHARGE_CURRENT_MA cfg
        \<and> (\<exists>bytes. charge_current_command (trace c') = Some bytes
              \<and> charge_current_ma_of bytes \<le> unat (max_charge_current_ma (regulator c')))"
    unfolding Let_def y
    using charge_current_encoded_le [of cfg y] clamp_le [of "MAX_CHARGE_CURRENT_MA cfg" y]
    by (auto simp add: not_less split: if_splits)
next
  show "f32_exact_monotone fp \<and> 0 \<le> ASSUME_EFFICIENCY cfg \<and> ASSUME_EFFICIENCY cfg \<le> 1
        \<and> unat (MAX_CHARGING_POWER cfg) \<le> 2 ^ 24 \<longrightarrow>
      Calculate_Max_Charge_Power cfg fp usb adc reg \<le> MAX_CHARGING_POWER cfg"
    using Calculate_Max_Charge_Power_le [of fp cfg usb adc reg] by blast
qed


text \<open>
  A request of 7 A against a ceiling of 6 A, and the spec's scenario S1: 20 V, 3 A and an
  efficiency of 0.9 give 54 W.
\<close>

theorem charge_current_and_power_ceilings_witness:
  "f32_exact_monotone exact_fpu
   \<and> 0 \<le> ASSUME_EFFICIENCY example_regulator_config
   \<and> ASSUME_EFFICIENCY example_regulator_config \<le> 1
   \<and> unat (MAX_CHARGING_POWER example_regulator_config) \<le> 2 ^ 24
   \<and> max_charge_current_ma (regulator
         (Set_Charge_Current example_regulator_config 7000 boot_controller)) = 6000
   \<and> charge_current_command
         (trace (Set_Charge_Current example_regulator_config 7000 boot_controller))
       = Some (0x40, 0x17)
   \<and> charge_current_ma_of (0x40, 0x17) = 5952
   \<and> Calculate_Max_Charge_Power example_regulator_config exact_fpu pd_20v_3a
         (cells_adc 3600 3600 3600 0 25) (regulator (on_20v boot_controller)) = 54000
   \<and> (54000 :: u32) \<le> MAX_CHARGING_POWER example_regulator_config"
  using
    charge_current_and_power_ceilings [where cfg = example_regulator_config and x = 7000
      and c = boot_controller and bcfg = example_battery_config and fp = exact_fpu
      and bs = idle_battery and es = "{}" and usb = pd_20v_3a
      and adc = "cells_adc 3600 3600 3600 0 25"
      and reg = "regulator (on_20v boot_controller)"]
    exact_fpu_ok
  by (simp add: example_regulator_config_def boot_controller_def idle_regulator_def
      charge_current_code_def charge_current_ma_of_def command_defs
      Calculate_Max_Charge_Power_def exact_fpu_def u2f_def f2u_def pd_20v_3a_def
      cells_adc_def on_20v_def Let_def)

subsection \<open>Output gate closed (C1)\<close>








subsection \<open>Charge termination (C7)\<close>

lemma Control_Charger_Output_open_terminating:
  assumes "output_gate bcfg bs es usb"
    and "requires_charging bs = 0"
    and "below_termination_current cfg fp (charge_current (regulator c))"
  shows "termination_counter (Control_Charger_Output bcfg cfg fp bs es usb adc c)
           = termination_counter c + 1
         \<and> hi_z_command (trace (Control_Charger_Output bcfg cfg fp bs es usb adc c))
           = Some (3 < termination_counter c + 1)
         \<and> charge_current (regulator (Control_Charger_Output bcfg cfg fp bs es usb adc c))
           = charge_current (regulator c)"
  using assms(1) [unfolded output_gate_def] assms(2,3)
  by (simp add: Control_Charger_Output_def Let_def command_defs)

lemma Control_Charger_Output_open_resets:
  assumes "output_gate bcfg bs es usb"
    and "\<not> (requires_charging bs = 0
            \<and> below_termination_current cfg fp (charge_current (regulator c)))"
  shows "termination_counter (Control_Charger_Output bcfg cfg fp bs es usb adc c) = 0
         \<and> hi_z_command (trace (Control_Charger_Output bcfg cfg fp bs es usb adc c))
           = Some False"
  using assms(1) [unfolded output_gate_def] assms(2)
  by (auto simp add: Control_Charger_Output_def Let_def command_defs)

lemma full_gate: "output_gate example_battery_config full_battery {} pd_20v_3a"
  by (simp add: output_gate_def full_battery_def CONNECTED_def no_errors_def pd_20v_3a_def)

lemma full_pass_step:
  assumes "charge_current (regulator c) = 0"
  shows "termination_counter (full_pass c) = termination_counter c + 1
         \<and> hi_z_command (trace (full_pass c)) = Some (3 < termination_counter c + 1)
         \<and> charge_current (regulator (full_pass c)) = 0"
proof -
  have "below_termination_current example_regulator_config exact_fpu
          (charge_current (regulator (c\<lparr> trace := [] \<rparr>)))"
    using assms
    by (simp add: below_termination_current_def example_regulator_config_def exact_fpu_def
        u2f_def)
  from Control_Charger_Output_open_terminating [OF full_gate _ this, of full_adc]
  show ?thesis
    using assms by (simp add: full_pass_def full_battery_def)
qed

lemma full_passes:
  assumes "charge_current (regulator c) = 0"
  shows "termination_counter ((full_pass ^^ n) c) = termination_counter c + of_nat n
         \<and> charge_current (regulator ((full_pass ^^ n) c)) = 0"
proof (induction n)
  case 0
  show ?case using assms by simp
next
  case (Suc n)
  then show ?case
    using full_pass_step [of "(full_pass ^^ n) c"] by simp
qed

lemma termination_counter_reaches_wrap:
  "termination_counter ((full_pass ^^ 65535) (full_controller 0)) = 65535"
  using full_passes [of "full_controller 0" 65535]
  by (simp add: full_controller_def idle_regulator_def)

lemma funpow_1_to_4:
  "(f ^^ 1) x = f x"
  "(f ^^ 2) x = f (f x)"
  "(f ^^ 3) x = f (f (f x))"
  "(f ^^ 4) x = f (f (f (f x)))"
  by (simp_all add: eval_nat_numeral)

lemma termination_forced_from_reset:
  "map (\<lambda>n. hi_z_command (trace ((full_pass ^^ n) (full_controller 0)))) [1, 2, 3, 4]
     = [Some False, Some False, Some False, Some True]"
proof -
  define c0 where "c0 = full_controller 0"
  define c1 where "c1 = full_pass c0"
  define c2 where "c2 = full_pass c1"
  define c3 where "c3 = full_pass c2"
  have c0: "charge_current (regulator c0) = 0" "termination_counter c0 = 0"
    by (simp_all add: c0_def full_controller_def idle_regulator_def)
  have c1: "charge_current (regulator c1) = 0" "termination_counter c1 = 1"
    "hi_z_command (trace c1) = Some False"
    using full_pass_step [OF c0(1)] c0(2) by (simp_all add: c1_def)
  have c2: "charge_current (regulator c2) = 0" "termination_counter c2 = 2"
    "hi_z_command (trace c2) = Some False"
    using full_pass_step [OF c1(1)] c1(2) by (simp_all add: c2_def)
  have c3: "charge_current (regulator c3) = 0" "termination_counter c3 = 3"
    "hi_z_command (trace c3) = Some False"
    using full_pass_step [OF c2(1)] c2(2) by (simp_all add: c3_def)
  have c4: "hi_z_command (trace (full_pass c3)) = Some True"
    using full_pass_step [OF c3(1)] c3(2) by simp
  show ?thesis
    using c1(3) c2(3) c3(3) c4
    by (simp add: funpow_1_to_4 c0_def c1_def c2_def c3_def)
qed

text \<open>
  C7. From a reset counter the fourth consecutive terminating pass forces Hi-Z
  (\<open>termination_forced_from_reset\<close>), and a pass that fails the condition resets the
  counter (\<open>Control_Charger_Output_open_resets\<close>). But the counter is a \<^verbatim>\<open>uint16_t\<close>
  that is incremented without a bound: after 65535 consecutive terminating passes
  (\<open>termination_counter_reaches_wrap\<close>) it wraps to 0, and the next four passes, each
  with \<open>requires_charging = 0\<close> and a charge current below the threshold, leave Hi-Z off.
\<close>

theorem Control_Charger_Output_termination_counter_wraps:
  "output_gate example_battery_config full_battery {} pd_20v_3a
   \<and> requires_charging full_battery = 0
   \<and> below_termination_current example_regulator_config exact_fpu
        (charge_current (regulator (full_controller 65535)))
   \<and> map (\<lambda>n. hi_z_command (trace ((full_pass ^^ n) (full_controller 65535)))) [1, 2, 3, 4]
       = [Some False, Some False, Some False, Some False]
   \<and> map (\<lambda>n. termination_counter ((full_pass ^^ n) (full_controller 65535))) [1, 2, 3, 4]
       = [0, 1, 2, 3]"
proof -
  define c0 where "c0 = full_controller 65535"
  define c1 where "c1 = full_pass c0"
  define c2 where "c2 = full_pass c1"
  define c3 where "c3 = full_pass c2"
  define c4 where "c4 = full_pass c3"
  have c0: "charge_current (regulator c0) = 0" "termination_counter c0 = 65535"
    by (simp_all add: c0_def full_controller_def idle_regulator_def)
  have b: "below_termination_current example_regulator_config exact_fpu
        (charge_current (regulator c0))"
    by (simp add: c0 below_termination_current_def example_regulator_config_def exact_fpu_def
        u2f_def)
  have c1: "charge_current (regulator c1) = 0" "termination_counter c1 = 0"
    "hi_z_command (trace c1) = Some False"
    using full_pass_step [OF c0(1)] c0(2) by (simp_all add: c1_def)
  have c2: "charge_current (regulator c2) = 0" "termination_counter c2 = 1"
    "hi_z_command (trace c2) = Some False"
    using full_pass_step [OF c1(1)] c1(2) by (simp_all add: c2_def)
  have c3: "charge_current (regulator c3) = 0" "termination_counter c3 = 2"
    "hi_z_command (trace c3) = Some False"
    using full_pass_step [OF c2(1)] c2(2) by (simp_all add: c3_def)
  have c4: "termination_counter c4 = 3" "hi_z_command (trace c4) = Some False"
    using full_pass_step [OF c3(1)] c3(2) by (simp_all add: c4_def)
  have "requires_charging full_battery = 0"
    by (simp add: full_battery_def)
  then show ?thesis
    using full_gate b c1(2,3) c2(2,3) c3(2,3) c4
    by (simp add: funpow_1_to_4 c0_def c1_def c2_def c3_def c4_def)
qed

subsection \<open>Boot-time UVP recovery (C3)\<close>

lemma precharging_state_reads [simp]:
  "precharging_state (Read_Charge_Status cfg s c) = precharging_state c"
  "precharging_state (Regulator_Read_ADC cfg s c) = precharging_state c"
  by (simp_all add: Read_Charge_Status_def Regulator_Read_ADC_def Let_def)

lemma trace_reads [simp]:
  "trace (Read_Charge_Status cfg s c) = trace c @ [ChargeStatus_Read]"
  "trace (Regulator_Read_ADC cfg s c) = trace c @ [ADC_Read]"
  by (simp_all add: Read_Charge_Status_def Regulator_Read_ADC_def Let_def)












text \<open>
  A run with one attempt: the pack reads as low at boot and as recovered after the first
  pulse.
\<close>

lemma vbat_voltage_reads [simp]:
  "vbat_voltage (regulator (Regulator_Read_ADC cfg s c))
     = ucast (vbat_adc s) * VBAT_ADC_SCALE (adc_cfg cfg) + VBAT_ADC_OFFSET (adc_cfg cfg)"
  by (simp add: Regulator_Read_ADC_def Let_def)






subsection \<open>Thermal derating (C4)\<close>














subsection \<open>The balancing latch (C6)\<close>

text \<open>The loop of lines 43 to 52 computes the minimum and the maximum of the cells in use.\<close>

lemma lt_min: "(if (x::u32) < a then x else a) = min x a"
  by (auto simp add: min_def)

lemma gt_max: "(if (x::u32) > b then x else b) = max x b"
  by (auto simp add: max_def)

lemma fold_min_max:
  fixes f :: "nat \<Rightarrow> u32"
  shows "fold (\<lambda>i (mn, mx). (if f i < mn then f i else mn, if f i > mx then f i else mx))
           [1 ..< Suc k] (f 0, f 0)
         = (Min (f ` {0 .. k}), Max (f ` {0 .. k}))"
proof (induction k)
  case 0
  show ?case by simp
next
  case (Suc k)
  define F where
    "F = (\<lambda>i (mn, mx). (if f i < mn then f i else mn, if f i > mx then f i else mx))"
  have step: "fold F [1 ..< Suc (Suc k)] s = F (Suc k) (fold F [1 ..< Suc k] s)" for s
    by simp
  have set: "f ` {0 .. Suc k} = insert (f (Suc k)) (f ` {0 .. k})"
    by (simp add: atLeastAtMostSuc_conv)
  have fin: "finite (f ` {0 .. k})" "f ` {0 .. k} \<noteq> {}"
    by simp_all
  have "fold F [1 ..< Suc (Suc k)] (f 0, f 0)
        = F (Suc k) (Min (f ` {0 .. k}), Max (f ` {0 .. k}))"
    unfolding step using Suc.IH by (simp only: F_def)
  also have "\<dots> = (min (f (Suc k)) (Min (f ` {0 .. k})), max (f (Suc k)) (Max (f ` {0 .. k})))"
    by (simp only: F_def case_prod_conv lt_min gt_max)
  also have "\<dots> = (Min (f ` {0 .. Suc k}), Max (f ` {0 .. Suc k}))"
    by (simp only: set Min_insert [OF fin] Max_insert [OF fin])
  finally show ?case
    by (simp only: F_def)
qed

lemma cell_min_max_Min_Max:
  "cell_min_max adc n
   = (Min (Get_Cell_Voltage adc ` {0 ..< max 1 (unat n)}),
      Max (Get_Cell_Voltage adc ` {0 ..< max 1 (unat n)}))"
proof (cases "unat n")
  case 0
  then show ?thesis by (simp add: cell_min_max_def)
next
  case (Suc k)
  have "{0 ..< max 1 (unat n)} = {0 .. k}"
    using Suc by (auto simp add: max_def)
  then show ?thesis
    unfolding cell_min_max_def Suc using fold_min_max [of "Get_Cell_Voltage adc" k] by simp
qed

lemma cell_min_le_max: "fst (cell_min_max adc n) \<le> snd (cell_min_max adc n)"
proof -
  let ?A = "Get_Cell_Voltage adc ` {0 ..< max 1 (unat n)}"
  have "Get_Cell_Voltage adc 0 \<in> ?A" by (simp add: max_def)
  then have "Min ?A \<le> Get_Cell_Voltage adc 0" "Get_Cell_Voltage adc 0 \<le> Max ?A"
    by simp_all
  then show ?thesis
    unfolding cell_min_max_Min_Max fst_conv snd_conv by (rule order_trans)
qed


lemma Balance_Battery_open_latch:
  assumes "ENABLE_BALANCING cfg" and "balance_port_connected bs = CONNECTED" and "no_errors es"
  shows "balancing_enabled (fst (Balance_Battery cfg fp adc es (bs, gp)))
         = balancing_latch cfg fp
             (balancing_scalar cfg fp (xt60_connected bs)
                (snd (cell_min_max adc (number_of_cells bs))))
             (fst (cell_min_max adc (number_of_cells bs)))
             (snd (cell_min_max adc (number_of_cells bs)))
             (balancing_enabled bs)"
  using assms by (simp add: Balance_Battery_def Let_def split_beta)

lemma balancing_scalar_exact:
  "balancing_scalar cfg exact_fpu CONNECTED vmax
   = max 1 (of_nat (unat (CELL_BALANCING_SCALAR_MAX cfg))
            * (1 - (of_nat (unat vmax) - of_nat (unat (MIN_CELL_V_FOR_BALANCING cfg)))
                   / (of_nat (unat (CELL_VOLTAGE_TO_ENABLE_CHARGING cfg))
                      - of_nat (unat (MIN_CELL_V_FOR_BALANCING cfg)))))"
  by (simp add: balancing_scalar_def exact_fpu_def u2f_def Let_def max_def not_less)

lemma balancing_scalar_ge_1: "1 \<le> balancing_scalar cfg fp xt60 vmax"
  by (simp add: balancing_scalar_def Let_def not_less)

lemma u2f_exact_diff:
  assumes "vmin \<le> vmax"
  shows "u2f exact_fpu (vmax - vmin) = of_nat (unat vmax) - of_nat (unat vmin)"
proof -
  have le: "unat vmin \<le> unat vmax"
    using assms by (simp add: word_le_nat_alt)
  have "unat (vmax - vmin) = unat vmax - unat vmin"
    using assms by (rule unat_sub)
  then show ?thesis
    using le by (simp add: u2f_def exact_fpu_def of_nat_diff)
qed

text \<open>
  Claim C6, as the code has it. With the balancing gate open, \<open>vmin\<close> and \<open>vmax\<close> are the
  least and the greatest voltage of the cells in use, and the latch after
  \<^verbatim>\<open>Balance_Battery\<close> is: from OFF, ON exactly when the spread \<open>vmax - vmin\<close> is at least
  \<^verbatim>\<open>CELL_DELTA_V_ENABLE_BALANCING\<close> times the scalar and \<open>vmin\<close> is above
  \<^verbatim>\<open>MIN_CELL_V_FOR_BALANCING\<close>; from ON, OFF exactly when the spread is below
  \<^verbatim>\<open>CELL_BALANCING_HYSTERESIS_V\<close> times the scalar or \<open>vmin\<close> is strictly below
  \<^verbatim>\<open>MIN_CELL_V_FOR_BALANCING\<close>. The scalar is 1 without the XT60 lead and at least 1 with
  it; in exact arithmetic, and when the two voltages of the quotient differ, it is the
  maximum of 1 and \<^verbatim>\<open>CELL_BALANCING_SCALAR_MAX\<close> times one minus the quotient. The
  spread is computed without wrap-around.
\<close>

theorem Balance_Battery_latch:
  assumes "ENABLE_BALANCING cfg" and "balance_port_connected bs = CONNECTED" and "no_errors es"
  shows
    "(let (vmin, vmax) = cell_min_max adc (number_of_cells bs);
          cells = Get_Cell_Voltage adc ` {0 ..< max 1 (unat (number_of_cells bs))};
          scalar = balancing_scalar cfg fp (xt60_connected bs) vmax;
          delta = u2f fp (vmax - vmin);
          after = balancing_enabled (fst (Balance_Battery cfg fp adc es (bs, gp)))
      in vmin = Min cells \<and> vmax = Max cells
         \<and> (balancing_enabled bs = 0 \<longrightarrow>
              after = (if delta \<ge> f32 fp (u2f fp (CELL_DELTA_V_ENABLE_BALANCING cfg) * scalar)
                          \<and> vmin > MIN_CELL_V_FOR_BALANCING cfg
                       then 1 else 0))
         \<and> (balancing_enabled bs = 1 \<longrightarrow>
              after = (if delta < f32 fp (u2f fp (CELL_BALANCING_HYSTERESIS_V cfg) * scalar)
                          \<or> vmin < MIN_CELL_V_FOR_BALANCING cfg
                       then 0 else 1))
         \<and> (xt60_connected bs \<noteq> CONNECTED \<longrightarrow> scalar = 1)
         \<and> (xt60_connected bs = CONNECTED \<longrightarrow> 1 \<le> scalar)
         \<and> (xt60_connected bs = CONNECTED
              \<and> CELL_VOLTAGE_TO_ENABLE_CHARGING cfg \<noteq> MIN_CELL_V_FOR_BALANCING cfg \<longrightarrow>
              balancing_scalar cfg exact_fpu (xt60_connected bs) vmax
              = max 1 (of_nat (unat (CELL_BALANCING_SCALAR_MAX cfg))
                       * (1 - (of_nat (unat vmax) - of_nat (unat (MIN_CELL_V_FOR_BALANCING cfg)))
                              / (of_nat (unat (CELL_VOLTAGE_TO_ENABLE_CHARGING cfg))
                                 - of_nat (unat (MIN_CELL_V_FOR_BALANCING cfg))))))
         \<and> u2f exact_fpu (vmax - vmin) = of_nat (unat vmax) - of_nat (unat vmin))"
proof -
  obtain vmin vmax where mm: "cell_min_max adc (number_of_cells bs) = (vmin, vmax)"
    by fastforce
  have le: "vmin \<le> vmax"
    using cell_min_le_max [of adc "number_of_cells bs"] by (simp add: mm)
  have minmax: "vmin = Min (Get_Cell_Voltage adc ` {0 ..< max 1 (unat (number_of_cells bs))})"
    "vmax = Max (Get_Cell_Voltage adc ` {0 ..< max 1 (unat (number_of_cells bs))})"
    using cell_min_max_Min_Max [of adc "number_of_cells bs"] by (simp_all add: mm)
  define scalar where "scalar = balancing_scalar cfg fp (xt60_connected bs) vmax"
  have after: "balancing_enabled (fst (Balance_Battery cfg fp adc es (bs, gp)))
               = balancing_latch cfg fp scalar vmin vmax (balancing_enabled bs)"
    using Balance_Battery_open_latch [OF assms, of fp adc gp] by (simp add: mm scalar_def)
  have off: "balancing_enabled bs = 0 \<Longrightarrow>
      balancing_latch cfg fp scalar vmin vmax (balancing_enabled bs)
      = (if u2f fp (vmax - vmin) \<ge> f32 fp (u2f fp (CELL_DELTA_V_ENABLE_BALANCING cfg) * scalar)
            \<and> vmin > MIN_CELL_V_FOR_BALANCING cfg
         then 1 else 0)"
    by (simp add: balancing_latch_def)
  have on: "balancing_enabled bs = 1 \<Longrightarrow>
      balancing_latch cfg fp scalar vmin vmax (balancing_enabled bs)
      = (if u2f fp (vmax - vmin) < f32 fp (u2f fp (CELL_BALANCING_HYSTERESIS_V cfg) * scalar)
            \<or> vmin < MIN_CELL_V_FOR_BALANCING cfg
         then 0 else 1)"
    by (simp add: balancing_latch_def)
  have s1: "xt60_connected bs \<noteq> CONNECTED \<Longrightarrow> scalar = 1"
    by (simp add: scalar_def balancing_scalar_def)
  have s2: "1 \<le> scalar"
    unfolding scalar_def by (rule balancing_scalar_ge_1)
  have s3: "xt60_connected bs = CONNECTED \<Longrightarrow>
      balancing_scalar cfg exact_fpu (xt60_connected bs) vmax
      = max 1 (of_nat (unat (CELL_BALANCING_SCALAR_MAX cfg))
               * (1 - (of_nat (unat vmax) - of_nat (unat (MIN_CELL_V_FOR_BALANCING cfg)))
                      / (of_nat (unat (CELL_VOLTAGE_TO_ENABLE_CHARGING cfg))
                         - of_nat (unat (MIN_CELL_V_FOR_BALANCING cfg)))))"
    by (simp only: balancing_scalar_exact)
  show ?thesis
    unfolding mm Let_def case_prod_conv after scalar_def [symmetric]
    using minmax off on s1 s2 s3 u2f_exact_diff [OF le] by blast
qed

lemma upt_1_3: "[Suc 0 ..< 3] = [1, 2]"
  by (simp add: upt_rec)

lemmas battery_example_defs =
  Balance_Battery_def cell_min_max_def balancing_scalar_def balancing_latch_def
  three_cell_battery_def example_battery_config_def cells_adc_def CONNECTED_def
  no_errors_def u2f_def Let_def upt_1_3

text \<open>
  Cells at 3.70, 3.80 and 3.75 V: without the XT60 lead the spread of 100 mV is above
  50 mV and the latch goes ON; with the lead the scalar is 380 / 59, the threshold
  322 mV, and the latch stays OFF. Cells within 5 mV of each other, below the 10 mV of
  the hysteresis: the latch goes OFF.
\<close>

theorem Balance_Battery_latch_witness:
  "ENABLE_BALANCING example_battery_config
   \<and> balance_port_connected (three_cell_battery 0 0) = CONNECTED
   \<and> no_errors {}
   \<and> cell_min_max (cells_adc 3700 3800 3750 0 25) 3 = (3700, 3800)
   \<and> balancing_enabled (fst (Balance_Battery example_battery_config exact_fpu
        (cells_adc 3700 3800 3750 0 25) {} (three_cell_battery 0 0, all_discharge_off))) = 1
   \<and> balancing_scalar example_battery_config exact_fpu 1 3800 = 380 / 59
   \<and> balancing_enabled (fst (Balance_Battery example_battery_config exact_fpu
        (cells_adc 3700 3800 3750 0 25) {} (three_cell_battery 1 0, all_discharge_off))) = 0
   \<and> balancing_enabled (fst (Balance_Battery example_battery_config exact_fpu
        (cells_adc 3700 3705 3702 0 25) {} (three_cell_battery 0 1, all_discharge_off))) = 0"
  using
    Balance_Battery_latch [where cfg = example_battery_config and fp = exact_fpu
      and bs = "three_cell_battery 0 0" and es = "{}"
      and adc = "cells_adc 3700 3800 3750 0 25" and gp = all_discharge_off]
    Balance_Battery_latch [where cfg = example_battery_config and fp = exact_fpu
      and bs = "three_cell_battery 1 0" and es = "{}"
      and adc = "cells_adc 3700 3800 3750 0 25" and gp = all_discharge_off]
    Balance_Battery_latch [where cfg = example_battery_config and fp = exact_fpu
      and bs = "three_cell_battery 0 1" and es = "{}"
      and adc = "cells_adc 3700 3705 3702 0 25" and gp = all_discharge_off]
  by (simp add: battery_example_defs exact_fpu_def)

lemma ieee_round_cells: "ieee_round 24 10 = 10" "ieee_round 24 500 = 500"
  by code_simp+

text \<open>
  The latch is ON and the lowest cell is at \<^verbatim>\<open>MIN_CELL_V_FOR_BALANCING\<close>, 3.000 V, with a
  spread of 500 mV: the latch stays ON, in exact arithmetic and with the roundings of
  IEEE 754.
\<close>

theorem Balance_Battery_latch_at_minimum_counterexample:
  "balancing_enabled (three_cell_battery 0 1) = 1
   \<and> MIN_CELL_V_FOR_BALANCING example_battery_config = 3000
   \<and> cell_min_max (cells_adc 3000 3500 3200 0 25) (number_of_cells (three_cell_battery 0 1))
       = (3000, 3500)
   \<and> balancing_enabled (fst (Balance_Battery example_battery_config exact_fpu
        (cells_adc 3000 3500 3200 0 25) {} (three_cell_battery 0 1, all_discharge_off))) = 1
   \<and> balancing_enabled (fst (Balance_Battery example_battery_config ieee_fpu
        (cells_adc 3000 3500 3200 0 25) {} (three_cell_battery 0 1, all_discharge_off))) = 1"
  by (simp add: battery_example_defs exact_fpu_def ieee_fpu_def ieee_round_cells)

end
